theory Spec2Isabelle
  imports Complex_Main
begin

section \<open>Geertsma's disk-shaped reservoir model (\<open>geertsma_disk.py\<close>)\<close>

text \<open>
  The module evaluates closed-form displacement and stress fields of a disk-shaped
  reservoir. Its arithmetic is read here over the real numbers: \<open>+\<close>, \<open>-\<close>, \<open>*\<close>, \<open>/\<close>,
  \<open>**\<close>, \<open>np.sqrt\<close>, \<open>np.arcsin\<close> and \<open>np.pi\<close> are the exact operations of
  \<^typ>\<open>real\<close>. A one-dimensional numpy array is a \<^typ>\<open>real list\<close>, and an
  arithmetic operation on arrays acts element by element, a scalar operand being
  broadcast to every element.

  Rounding, infinities and \<open>nan\<close> are outside this reading. They are written out,
  in the subsections on double precision, for the three places where a property
  of the computed values depends on them: the modulus \<open>m\<close>, the kernel \<open>Int3\<close> on
  the rim, and the radius \<open>r\<close>. Where the program divides arrays by zero, numpy
  returns \<open>inf\<close> or \<open>nan\<close> and goes on, while a real number divided by zero is
  \<open>0\<close>: at the singular points (\<open>r = 0\<close>, or \<open>q = 0\<close> with \<open>r = R\<close>) the theorems
  over the reals speak of the formulas and not of the values numpy returns.
\<close>

subsection \<open>Imported collaborators\<close>

text \<open>
  \<open>ellipk\<close>, \<open>ellipe\<close>, \<open>ellipkinc\<close> and \<open>ellipeinc\<close> come from \<open>scipy.special\<close> and
  \<open>Cm\<close> from the module \<open>compaction\<close>; none of them is defined in
  \<open>geertsma_disk.py\<close>. They are parameters of the model.
\<close>

record externals =
  ellipk :: "real \<Rightarrow> real"
  ellipe :: "real \<Rightarrow> real"
  ellipkinc :: "real \<Rightarrow> real \<Rightarrow> real"
  ellipeinc :: "real \<Rightarrow> real \<Rightarrow> real"
  Cm :: "real \<Rightarrow> real \<Rightarrow> real"

subsection \<open>numpy primitives\<close>

text \<open>\<open>np.sign\<close>: \<open>-1\<close> below zero, \<open>0\<close> at zero, \<open>1\<close> above.\<close>

definition sign :: "real \<Rightarrow> real" where
  "sign x = (if x < 0 then - 1 else if x = 0 then 0 else 1)"

text \<open>\<open>np.heaviside(x1, x2)\<close>: \<open>0\<close> below zero, \<open>x2\<close> at zero, \<open>1\<close> above.\<close>

definition heaviside :: "real \<Rightarrow> real \<Rightarrow> real" where
  "heaviside x1 x2 = (if x1 < 0 then 0 else if x1 = 0 then x2 else 1)"

text \<open>Element-wise operations on one-dimensional arrays.\<close>

definition vadd :: "real list \<Rightarrow> real list \<Rightarrow> real list" where
  "vadd xs ys = map2 (+) xs ys"

definition vsub :: "real list \<Rightarrow> real list \<Rightarrow> real list" where
  "vsub xs ys = map2 (-) xs ys"

definition vmul :: "real list \<Rightarrow> real list \<Rightarrow> real list" where
  "vmul xs ys = map2 (*) xs ys"

definition vdiv :: "real list \<Rightarrow> real list \<Rightarrow> real list" where
  "vdiv xs ys = map2 (/) xs ys"

text \<open>Operations of an array with a broadcast scalar.\<close>

definition smul :: "real \<Rightarrow> real list \<Rightarrow> real list" where
  "smul c xs = map (\<lambda>x. c * x) xs"

definition vsubs :: "real list \<Rightarrow> real \<Rightarrow> real list" where
  "vsubs xs c = map (\<lambda>x. x - c) xs"

definition vadds :: "real list \<Rightarrow> real \<Rightarrow> real list" where
  "vadds xs c = map (\<lambda>x. x + c) xs"

definition vscale :: "real list \<Rightarrow> real \<Rightarrow> real list" where
  "vscale xs c = map (\<lambda>x. x * c) xs"

definition vsq :: "real list \<Rightarrow> real list" where
  "vsq xs = map (\<lambda>x. x ^ 2) xs"

text \<open>
  A kernel called with arrays \<open>q\<close>, \<open>r\<close> and the scalar \<open>R\<close> is evaluated element by
  element.
\<close>

definition kernel :: "(real \<Rightarrow> real \<Rightarrow> real \<Rightarrow> real) \<Rightarrow> real list \<Rightarrow> real list \<Rightarrow> real \<Rightarrow> real list" where
  "kernel f qs rs R = map2 (\<lambda>q r. f q r R) qs rs"

subsection \<open>The integral kernels\<close>

text \<open>The first statement of every kernel: \<open>m = 4*R*r/(q**2 + (r+R)**2)\<close>.\<close>

definition modulus :: "real \<Rightarrow> real \<Rightarrow> real \<Rightarrow> real" where
  "modulus q r R = 4 * R * r / (q ^ 2 + (r + R) ^ 2)"

definition Int1 :: "externals \<Rightarrow> real \<Rightarrow> real \<Rightarrow> real \<Rightarrow> real" where
  "Int1 ext q r R =
    (let m = modulus q r R;
         K = ellipk ext m;
         E0 = ellipe ext m
     in 2 * ((1 - (m / 2)) * K - E0) / (pi * sqrt (m * r * R)))"

definition Int2 :: "externals \<Rightarrow> real \<Rightarrow> real \<Rightarrow> real \<Rightarrow> real" where
  "Int2 ext q r R =
    (let m = modulus q r R;
         K = ellipk ext m;
         E0 = ellipe ext m
     in q * sqrt m * ((1 - m / 2) * E0 / (1 - m) - K) / (2 * pi * sqrt (r * R) ^ 3))"

definition Int3 :: "externals \<Rightarrow> real \<Rightarrow> real \<Rightarrow> real \<Rightarrow> real" where
  "Int3 ext q r R =
    (let m = modulus q r R;
         K0 = ellipk ext m;
         K1 = ellipk ext (1 - m);
         E0 = ellipe ext m;
         E1 = ellipe ext (1 - m);
         beta = arcsin (q / sqrt (q ^ 2 + (R - r) ^ 2));
         K2 = ellipkinc ext beta (1 - m);
         E2 = ellipeinc ext beta (1 - m);
         Z = E2 - E1 * K2 / K1;
         lamb = K2 / K1 + 2 * K0 * Z / pi
     in - q * sqrt m * K0 / (2 * pi * R * sqrt (r * R))
        + (heaviside (r - R) 0.5 - heaviside (R - r) 0.5) * lamb / (2 * R)
        + heaviside (R - r) 0.5 / R)"

definition Int4 :: "externals \<Rightarrow> real \<Rightarrow> real \<Rightarrow> real \<Rightarrow> real" where
  "Int4 ext q r R =
    (let m = modulus q r R;
         K0 = ellipk ext m;
         E0 = ellipe ext m
     in sqrt m ^ 3 * (R ^ 2 - r ^ 2 - q ^ 2) * E0 / (8 * pi * sqrt (r * R) ^ 3 * R * (1 - m))
        + sqrt m * K0 / (2 * pi * R * sqrt (r * R)))"

definition Int6 :: "externals \<Rightarrow> real \<Rightarrow> real \<Rightarrow> real \<Rightarrow> real" where
  "Int6 ext q r R =
    (let m = modulus q r R;
         K0 = ellipk ext m;
         E0 = ellipe ext m
     in q * sqrt m ^ 3
          * (3 * E0 + m * (R ^ 2 - r ^ 2 - q ^ 2) * ((1 - m / 2) * E0 / (1 - m) - K0 / 4) / (r * R))
          / (8 * pi * sqrt (r * R) ^ 3 * R * (1 - m)))"

subsection \<open>Arguments and errors\<close>

text \<open>
  \<open>pressure\<close>, \<open>poisson\<close> and \<open>young\<close> arrive either as a scalar or as an array;
  \<open>np.isscalar\<close> tells them apart. A failed \<open>assert\<close> raises \<open>AssertionError\<close> with
  the message of the statement. A scalar argument is a Python \<open>float\<close>, and a
  division of Python floats by zero raises \<open>ZeroDivisionError\<close>; a division that
  involves a numpy array raises nothing.
\<close>

datatype pyval = Scalar real | NdArray "real list"

fun isscalar :: "pyval \<Rightarrow> bool" where
  "isscalar (Scalar _) = True"
| "isscalar (NdArray _) = False"

text \<open>The number held by a scalar argument; it is read only after the checks.\<close>

fun scalar_of :: "pyval \<Rightarrow> real" where
  "scalar_of (Scalar x) = x"
| "scalar_of (NdArray _) = undefined"

datatype error = AssertionError string | ZeroDivisionError

text \<open>
  Shear modulus, \<open>young/(2*(1+poisson))\<close> on two Python floats: the division
  raises when its divisor is zero.
\<close>

definition G :: "real \<Rightarrow> real \<Rightarrow> error + real" where
  "G poisson young =
     (if 2 * (1 + poisson) = 0 then Inl ZeroDivisionError
      else Inr (young / (2 * (1 + poisson))))"

text \<open>
  The five \<open>assert\<close> statements that open both public functions, in their order.
  \<open>coordinates\<close> is a two-dimensional array, held as the list of its rows, so that
  \<open>coordinates.shape[0]\<close> is the length of the list.
\<close>

definition check_arguments :: "real list list \<Rightarrow> real list \<Rightarrow> pyval \<Rightarrow> pyval \<Rightarrow> pyval \<Rightarrow> error option" where
  "check_arguments coordinates disk pressure poisson young =
    (if length disk \<noteq> 5 then Some (AssertionError ''disk must contain y0, x0, D, R, and h'')
     else if length coordinates \<noteq> 3 then Some (AssertionError ''coordinates must have 3 rows'')
     else if \<not> isscalar pressure then Some (AssertionError ''pressure must be a scalar'')
     else if \<not> isscalar poisson then Some (AssertionError ''poisson must be a scalar'')
     else if \<not> isscalar young then Some (AssertionError ''young must be a scalar'')
     else None)"

subsection \<open>Derived per-point geometry\<close>

text \<open>
  Both public functions continue with the same six statements: the unpacking of
  \<open>disk\<close>, the shifted coordinates \<open>Y\<close>, \<open>X\<close>, \<open>Z\<close>, the radius \<open>r\<close> and the mirror
  depth \<open>Z2\<close>.
\<close>

record geometry =
  gY :: "real list"
  gX :: "real list"
  gZ :: "real list"
  gr :: "real list"
  gZ2 :: "real list"

definition derive_geometry :: "real list list \<Rightarrow> real list \<Rightarrow> geometry" where
  "derive_geometry coordinates disk =
    (let y0 = disk ! 0; x0 = disk ! 1; D = disk ! 2;
         Y = vsubs (coordinates ! 0) y0;
         X = vsubs (coordinates ! 1) x0;
         Z = vsubs (coordinates ! 2) D;
         r = map sqrt (vadd (vadd (vsq Y) (vsq X)) (vsq Z));
         Z2 = vadds Z (2 * D)
     in \<lparr>gY = Y, gX = X, gZ = Z, gr = r, gZ2 = Z2\<rparr>)"

subsection \<open>Displacement\<close>

text \<open>
  The right-hand sides of the statements \<open>ur = -pressure*(...)\<close> and
  \<open>uz = pressure*(...)\<close>. The last term of each multiplies by \<open>coordinates[2]\<close>, the
  vertical coordinate before the shift.
\<close>

definition displacement_ur :: "externals \<Rightarrow> real list list \<Rightarrow> real \<Rightarrow> real \<Rightarrow> real \<Rightarrow> geometry \<Rightarrow> real list" where
  "displacement_ur ext coordinates R pressure poisson g =
    (let Z = gZ g; r = gr g; Z2 = gZ2 g
     in smul (- pressure)
          (vsub
            (vadd (kernel (Int1 ext) (map abs Z) r R)
                  (smul (3 - 4 * poisson) (kernel (Int1 ext) Z2 r R)))
            (vmul (smul 2 (coordinates ! 2)) (kernel (Int2 ext) Z2 r R))))"

definition displacement_uz :: "externals \<Rightarrow> real list list \<Rightarrow> real \<Rightarrow> real \<Rightarrow> real \<Rightarrow> geometry \<Rightarrow> real list" where
  "displacement_uz ext coordinates R pressure poisson g =
    (let Z = gZ g; r = gr g; Z2 = gZ2 g
     in smul pressure
          (vsub
            (vsub (vmul (map sign Z) (kernel (Int3 ext) (map abs Z) r R))
                  (smul (3 - 4 * poisson) (kernel (Int3 ext) Z2 r R)))
            (vmul (smul 2 (coordinates ! 2)) (kernel (Int4 ext) Z2 r R))))"

definition Geertsma_disk_displacement ::
  "externals \<Rightarrow> real list list \<Rightarrow> real list \<Rightarrow> pyval \<Rightarrow> pyval \<Rightarrow> pyval \<Rightarrow> error + (real list \<times> real list)" where
  "Geertsma_disk_displacement ext coordinates disk pressure poisson young =
    (case check_arguments coordinates disk pressure poisson young of
       Some e \<Rightarrow> Inl e
     | None \<Rightarrow>
        (let p = scalar_of pressure; nu = scalar_of poisson; E = scalar_of young;
             R = disk ! 3; h = disk ! 4;
             g = derive_geometry coordinates disk;
             ur = displacement_ur ext coordinates R p nu g;
             uz = displacement_uz ext coordinates R p nu g;
             ur = vscale ur (Cm ext nu E * R * h / 2);
             uz = vscale uz (Cm ext nu E * R * h / 2)
         in Inr (ur, uz)))"

subsection \<open>Stress\<close>

text \<open>
  The right-hand sides of the statements \<open>sr = pressure*(...)\<close>,
  \<open>st = pressure*(...)\<close> and \<open>sz = -pressure*(...)\<close>. The function calls \<open>G\<close>
  after these three statements, so that an exception of \<open>G\<close> ends a call whose
  three arrays are already computed.
\<close>

definition stress_sr :: "externals \<Rightarrow> real list list \<Rightarrow> real \<Rightarrow> real \<Rightarrow> real \<Rightarrow> geometry \<Rightarrow> real list" where
  "stress_sr ext coordinates R pressure poisson g =
    (let Z = gZ g; r = gr g; Z2 = gZ2 g
     in smul pressure
          (vsub
            (vadd
              (vsub
                (vsub
                  (vadd (kernel (Int4 ext) (map abs Z) r R)
                        (smul 3 (kernel (Int4 ext) Z2 r R)))
                  (vmul (smul 2 (coordinates ! 2)) (kernel (Int6 ext) Z2 r R)))
                (vdiv (kernel (Int1 ext) (map abs Z) r R) r))
              (vdiv (smul (3 - 4 * poisson) (kernel (Int1 ext) Z2 r R)) r))
            (vdiv (vmul (smul 2 (coordinates ! 2)) (kernel (Int2 ext) Z2 r R)) r)))"

definition stress_st :: "externals \<Rightarrow> real list list \<Rightarrow> real \<Rightarrow> real \<Rightarrow> real \<Rightarrow> geometry \<Rightarrow> real list" where
  "stress_st ext coordinates R pressure poisson g =
    (let Z = gZ g; r = gr g; Z2 = gZ2 g
     in smul pressure
          (vsub
            (vadd
              (vadd (smul (4 * poisson) (kernel (Int4 ext) Z2 r R))
                    (vdiv (kernel (Int1 ext) (map abs Z) r R) r))
              (vdiv (smul (3 - 4 * poisson) (kernel (Int1 ext) Z2 r R)) r))
            (vdiv (vmul (smul 2 (coordinates ! 2)) (kernel (Int2 ext) Z2 r R)) r)))"

definition stress_sz :: "externals \<Rightarrow> real list list \<Rightarrow> real \<Rightarrow> real \<Rightarrow> real \<Rightarrow> geometry \<Rightarrow> real list" where
  "stress_sz ext coordinates R pressure poisson g =
    (let Z = gZ g; r = gr g; Z2 = gZ2 g
     in smul (- pressure)
          (vadd
            (vadd (map uminus (kernel (Int4 ext) (map abs Z) r R))
                  (kernel (Int4 ext) Z2 r R))
            (vmul (smul 2 (coordinates ! 2)) (kernel (Int6 ext) Z2 r R))))"

definition Geertsma_disk_stress ::
  "externals \<Rightarrow> real list list \<Rightarrow> real list \<Rightarrow> pyval \<Rightarrow> pyval \<Rightarrow> pyval
     \<Rightarrow> error + (real list \<times> real list \<times> real list)" where
  "Geertsma_disk_stress ext coordinates disk pressure poisson young =
    (case check_arguments coordinates disk pressure poisson young of
       Some e \<Rightarrow> Inl e
     | None \<Rightarrow>
        (let p = scalar_of pressure; nu = scalar_of poisson; E = scalar_of young;
             R = disk ! 3; h = disk ! 4;
             g = derive_geometry coordinates disk;
             sr = stress_sr ext coordinates R p nu g;
             st = stress_st ext coordinates R p nu g;
             sz = stress_sz ext coordinates R p nu g
         in case G nu E of
              Inl e \<Rightarrow> Inl e
            | Inr shear \<Rightarrow>
               (let aux = shear * Cm ext nu E * R * h;
                    sr = vscale sr aux;
                    st = vscale st aux;
                    sz = vscale sz aux
                in Inr (sr, st, sz))))"

subsection \<open>The same functions on a store\<close>

text \<open>
  numpy arrays and Python lists are mutable objects, reached through references.
  To follow what a call writes, the store is the list of the objects allocated so
  far and a reference is an index into it. Every numpy operation of the module
  returns a new array; the only statements that write into an existing array are
  the augmented assignments \<open>ur *= ...\<close>, \<open>uz *= ...\<close>, \<open>sr *= aux\<close>,
  \<open>st *= aux\<close> and \<open>sz *= aux\<close>. Each assignment statement allocates the array
  it binds; the temporaries inside its right-hand side are new arrays as well and
  are not kept.
\<close>

datatype obj = Ndarray1 "real list" | Ndarray2 "real list list" | PyList "real list"

type_synonym ref = nat

type_synonym store = "obj list"

fun rows_of :: "obj \<Rightarrow> real list list" where
  "rows_of (Ndarray2 rows) = rows"
| "rows_of _ = undefined"

fun array_of :: "obj \<Rightarrow> real list" where
  "array_of (Ndarray1 xs) = xs"
| "array_of _ = undefined"

fun items_of :: "obj \<Rightarrow> real list" where
  "items_of (PyList xs) = xs"
| "items_of _ = undefined"

definition alloc :: "real list \<Rightarrow> store \<Rightarrow> ref \<times> store" where
  "alloc xs s = (length s, s @ [Ndarray1 xs])"

text \<open>\<open>a *= c\<close> on the array behind the reference \<open>a\<close>.\<close>

definition imul :: "ref \<Rightarrow> real \<Rightarrow> store \<Rightarrow> store" where
  "imul a c s = s[a := Ndarray1 (vscale (array_of (s ! a)) c)]"

definition Geertsma_disk_displacement_store ::
  "externals \<Rightarrow> ref \<Rightarrow> ref \<Rightarrow> pyval \<Rightarrow> pyval \<Rightarrow> pyval \<Rightarrow> store \<Rightarrow> (error + (ref \<times> ref)) \<times> store" where
  "Geertsma_disk_displacement_store ext coordinates disk pressure poisson young s =
    (case check_arguments (rows_of (s ! coordinates)) (items_of (s ! disk)) pressure poisson young of
       Some e \<Rightarrow> (Inl e, s)
     | None \<Rightarrow>
        (let p = scalar_of pressure; nu = scalar_of poisson; E = scalar_of young;
             y0 = items_of (s ! disk) ! 0; x0 = items_of (s ! disk) ! 1;
             D = items_of (s ! disk) ! 2; R = items_of (s ! disk) ! 3;
             h = items_of (s ! disk) ! 4;
             (Y, s) = alloc (vsubs (rows_of (s ! coordinates) ! 0) y0) s;
             (X, s) = alloc (vsubs (rows_of (s ! coordinates) ! 1) x0) s;
             (Z, s) = alloc (vsubs (rows_of (s ! coordinates) ! 2) D) s;
             (r, s) = alloc (map sqrt (vadd (vadd (vsq (array_of (s ! Y))) (vsq (array_of (s ! X))))
                                            (vsq (array_of (s ! Z))))) s;
             (Z2, s) = alloc (vadds (array_of (s ! Z)) (2 * D)) s;
             g = \<lparr>gY = array_of (s ! Y), gX = array_of (s ! X), gZ = array_of (s ! Z),
                  gr = array_of (s ! r), gZ2 = array_of (s ! Z2)\<rparr>;
             (ur, s) = alloc (displacement_ur ext (rows_of (s ! coordinates)) R p nu g) s;
             (uz, s) = alloc (displacement_uz ext (rows_of (s ! coordinates)) R p nu g) s;
             s = imul ur (Cm ext nu E * R * h / 2) s;
             s = imul uz (Cm ext nu E * R * h / 2) s
         in (Inr (ur, uz), s)))"

definition Geertsma_disk_stress_store ::
  "externals \<Rightarrow> ref \<Rightarrow> ref \<Rightarrow> pyval \<Rightarrow> pyval \<Rightarrow> pyval \<Rightarrow> store
     \<Rightarrow> (error + (ref \<times> ref \<times> ref)) \<times> store" where
  "Geertsma_disk_stress_store ext coordinates disk pressure poisson young s =
    (case check_arguments (rows_of (s ! coordinates)) (items_of (s ! disk)) pressure poisson young of
       Some e \<Rightarrow> (Inl e, s)
     | None \<Rightarrow>
        (let p = scalar_of pressure; nu = scalar_of poisson; E = scalar_of young;
             y0 = items_of (s ! disk) ! 0; x0 = items_of (s ! disk) ! 1;
             D = items_of (s ! disk) ! 2; R = items_of (s ! disk) ! 3;
             h = items_of (s ! disk) ! 4;
             (Y, s) = alloc (vsubs (rows_of (s ! coordinates) ! 0) y0) s;
             (X, s) = alloc (vsubs (rows_of (s ! coordinates) ! 1) x0) s;
             (Z, s) = alloc (vsubs (rows_of (s ! coordinates) ! 2) D) s;
             (r, s) = alloc (map sqrt (vadd (vadd (vsq (array_of (s ! Y))) (vsq (array_of (s ! X))))
                                            (vsq (array_of (s ! Z))))) s;
             (Z2, s) = alloc (vadds (array_of (s ! Z)) (2 * D)) s;
             g = \<lparr>gY = array_of (s ! Y), gX = array_of (s ! X), gZ = array_of (s ! Z),
                  gr = array_of (s ! r), gZ2 = array_of (s ! Z2)\<rparr>;
             (sr, s) = alloc (stress_sr ext (rows_of (s ! coordinates)) R p nu g) s;
             (st, s) = alloc (stress_st ext (rows_of (s ! coordinates)) R p nu g) s;
             (sz, s) = alloc (stress_sz ext (rows_of (s ! coordinates)) R p nu g) s
         in case G nu E of
              Inl e \<Rightarrow> (Inl e, s)
            | Inr shear \<Rightarrow>
               (let aux = shear * Cm ext nu E * R * h;
                    s = imul sr aux s;
                    s = imul st aux s;
                    s = imul sz aux s
                in (Inr (sr, st, sz), s))))"

subsection \<open>Double precision: rounding\<close>

text \<open>
  The program computes with numpy's \<open>float64\<close>, the binary64 format of IEEE 754:
  every arithmetic operation returns the exact result rounded to the nearest number
  with 53 significant bits, a tie going to the even significand. \<open>expo\<close> is the
  binary exponent of a non-zero number, \<open>rhe\<close> rounds to the nearest integer with
  ties to even, and \<open>round_f64\<close> rounds a real number to 53 significant bits.
  Overflow and subnormal numbers are left out: the definitions describe binary64
  for magnitudes from \<open>2 powi (- 1022)\<close> up to, and not including, \<open>2 powi 1024\<close>.
\<close>

definition expo :: "real \<Rightarrow> int" where
  "expo x = \<lfloor>log 2 (abs x)\<rfloor>"

definition rhe :: "real \<Rightarrow> int" where
  "rhe y = (let n = \<lfloor>y\<rfloor>; d = y - of_int n
            in if d < 1 / 2 then n
               else if 1 / 2 < d then n + 1
               else if even n then n else n + 1)"

definition round_f64 :: "real \<Rightarrow> real" where
  "round_f64 x = (if x = 0 then 0
                  else let u = 2 powi (expo x - 52) in of_int (rhe (x / u)) * u)"

definition fadd :: "real \<Rightarrow> real \<Rightarrow> real" where
  "fadd x y = round_f64 (x + y)"

definition fmul :: "real \<Rightarrow> real \<Rightarrow> real" where
  "fmul x y = round_f64 (x * y)"

definition fsub :: "real \<Rightarrow> real \<Rightarrow> real" where
  "fsub x y = round_f64 (x - y)"

definition fdiv :: "real \<Rightarrow> real \<Rightarrow> real" where
  "fdiv x y = round_f64 (x / y)"

definition fsqrt :: "real \<Rightarrow> real" where
  "fsqrt x = round_f64 (sqrt x)"

text \<open>
  The statement \<open>m = 4*R*r/(q**2 + (r+R)**2)\<close> with every operation rounded, in
  Python's order of evaluation; \<open>x**2\<close> is the rounded square.
\<close>

definition modulus_f64 :: "real \<Rightarrow> real \<Rightarrow> real \<Rightarrow> real" where
  "modulus_f64 q r R =
     fdiv (fmul (fmul 4 R) r) (fadd (fmul q q) (fmul (fadd r R) (fadd r R)))"

text \<open>
  The statements \<open>Y = coordinates[0] - y0\<close>, \<open>X = coordinates[1] - x0\<close>,
  \<open>Z = coordinates[2] - D\<close> and \<open>r = np.sqrt(Y**2 + X**2 + Z**2)\<close> at one point
  \<open>(y, x, z)\<close>, with every operation rounded.
\<close>

definition radius_f64 :: "real \<Rightarrow> real \<Rightarrow> real \<Rightarrow> real \<Rightarrow> real \<Rightarrow> real \<Rightarrow> real" where
  "radius_f64 y x z y0 x0 D =
     (let Y = fsub y y0; X = fsub x x0; Z = fsub z D
      in fsqrt (fadd (fadd (fmul Y Y) (fmul X X)) (fmul Z Z)))"

subsection \<open>Double precision: infinities and nan\<close>

text \<open>
  A binary64 value is a finite number, one of the two infinities, or \<open>nan\<close>. The
  operations follow IEEE 754 as numpy applies it to arrays: \<open>nan\<close> propagates,
  \<open>inf - inf\<close>, \<open>0 * inf\<close>, \<open>0 / 0\<close> and \<open>inf / inf\<close> are \<open>nan\<close>, a non-zero number
  divided by zero is an infinity, and finite results are rounded by \<open>round_f64\<close>.
  The sign of a zero is not kept (a zero divisor counts as \<open>+0\<close>), and the values
  of \<open>np.arcsin\<close> are taken as correctly rounded; the properties below depend on
  neither.
\<close>

datatype f64 = Fin real | PInf | NInf | NaN

definition signed_inf :: "real \<Rightarrow> f64" where
  "signed_inf s = (if s = 0 then NaN else if 0 < s then PInf else NInf)"


















text \<open>The values that are not finite numbers.\<close>

fun nonfinite :: "f64 \<Rightarrow> bool" where
  "nonfinite (Fin _) = False"
| "nonfinite _ = True"

subsection \<open>A concrete instance of the collaborators\<close>

text \<open>
  For evaluating the theorems at concrete inputs the parameters need values. This
  instance takes the elliptic integrals at parameter \<open>0\<close>, where
  \<open>K = E = \<pi>/2\<close> and the incomplete integrals are the amplitude, and a uniaxial
  compaction coefficient. It stands for no library.
\<close>

definition sample_externals :: externals where
  "sample_externals =
     \<lparr>ellipk = (\<lambda>m. pi / 2), ellipe = (\<lambda>m. pi / 2),
      ellipkinc = (\<lambda>phi m. phi), ellipeinc = (\<lambda>phi m. phi),
      Cm = (\<lambda>poisson young. (1 + poisson) * (1 - 2 * poisson) / (young * (1 - poisson)))\<rparr>"

section \<open>Properties\<close>

subsection \<open>Element-wise operations\<close>

lemma length_vops [simp]:
  "length (vadd xs ys) = min (length xs) (length ys)"
  "length (vsub xs ys) = min (length xs) (length ys)"
  "length (vmul xs ys) = min (length xs) (length ys)"
  "length (vdiv xs ys) = min (length xs) (length ys)"
  "length (smul c xs) = length xs"
  "length (vsubs xs c) = length xs"
  "length (vadds xs c) = length xs"
  "length (vscale xs c) = length xs"
  "length (vsq xs) = length xs"
  "length (kernel f xs ys R) = min (length xs) (length ys)"
  by (simp_all add: vadd_def vsub_def vmul_def vdiv_def smul_def vsubs_def vadds_def
      vscale_def vsq_def kernel_def)

lemma nth_vops2 [simp]:
  assumes "i < length xs" "i < length ys"
  shows "vadd xs ys ! i = xs ! i + ys ! i"
    and "vsub xs ys ! i = xs ! i - ys ! i"
    and "vmul xs ys ! i = xs ! i * ys ! i"
    and "vdiv xs ys ! i = xs ! i / ys ! i"
    and "kernel f xs ys R ! i = f (xs ! i) (ys ! i) R"
  using assms by (simp_all add: vadd_def vsub_def vmul_def vdiv_def kernel_def)

lemma nth_vops1 [simp]:
  assumes "i < length xs"
  shows "smul c xs ! i = c * xs ! i"
    and "vsubs xs c ! i = xs ! i - c"
    and "vadds xs c ! i = xs ! i + c"
    and "vscale xs c ! i = xs ! i * c"
    and "vsq xs ! i = (xs ! i) ^ 2"
  using assms by (simp_all add: smul_def vsubs_def vadds_def vscale_def vsq_def)

subsection \<open>Geometry and the assembled fields, point by point\<close>

lemma derive_geometry_length:
  assumes "coordinates = [ys, xs, zs]" "length ys = N" "length xs = N" "length zs = N"
  shows "length (gY (derive_geometry coordinates disk)) = N"
    and "length (gX (derive_geometry coordinates disk)) = N"
    and "length (gZ (derive_geometry coordinates disk)) = N"
    and "length (gr (derive_geometry coordinates disk)) = N"
    and "length (gZ2 (derive_geometry coordinates disk)) = N"
  using assms by (simp_all add: derive_geometry_def Let_def)

lemma derive_geometry_nth:
  assumes "disk = [y0, x0, D, R, h]" "coordinates = [ys, xs, zs]"
    "length ys = N" "length xs = N" "length zs = N" "i < N"
  shows "gY (derive_geometry coordinates disk) ! i = ys ! i - y0"
    and "gX (derive_geometry coordinates disk) ! i = xs ! i - x0"
    and "gZ (derive_geometry coordinates disk) ! i = zs ! i - D"
    and "gr (derive_geometry coordinates disk) ! i =
           sqrt ((ys ! i - y0)\<^sup>2 + (xs ! i - x0)\<^sup>2 + (zs ! i - D)\<^sup>2)"
    and "gZ2 (derive_geometry coordinates disk) ! i = zs ! i - D + 2 * D"
  using assms by (simp_all add: derive_geometry_def Let_def)

lemma fields_nth:
  assumes "coordinates = [ys, xs, zs]" "length (gZ g) = N" "length (gr g) = N"
    "length (gZ2 g) = N" "length zs = N" "i < N"
  shows "displacement_ur ext coordinates R p nu g ! i =
     - p * (Int1 ext (abs (gZ g ! i)) (gr g ! i) R
            + (3 - 4 * nu) * Int1 ext (gZ2 g ! i) (gr g ! i) R
            - 2 * (zs ! i) * Int2 ext (gZ2 g ! i) (gr g ! i) R)"
    and "displacement_uz ext coordinates R p nu g ! i =
     p * (sign (gZ g ! i) * Int3 ext (abs (gZ g ! i)) (gr g ! i) R
          - (3 - 4 * nu) * Int3 ext (gZ2 g ! i) (gr g ! i) R
          - 2 * (zs ! i) * Int4 ext (gZ2 g ! i) (gr g ! i) R)"
    and "stress_sr ext coordinates R p nu g ! i =
     p * (Int4 ext (abs (gZ g ! i)) (gr g ! i) R
          + 3 * Int4 ext (gZ2 g ! i) (gr g ! i) R
          - 2 * (zs ! i) * Int6 ext (gZ2 g ! i) (gr g ! i) R
          - Int1 ext (abs (gZ g ! i)) (gr g ! i) R / (gr g ! i)
          + (3 - 4 * nu) * Int1 ext (gZ2 g ! i) (gr g ! i) R / (gr g ! i)
          - 2 * (zs ! i) * Int2 ext (gZ2 g ! i) (gr g ! i) R / (gr g ! i))"
    and "stress_st ext coordinates R p nu g ! i =
     p * (4 * nu * Int4 ext (gZ2 g ! i) (gr g ! i) R
          + Int1 ext (abs (gZ g ! i)) (gr g ! i) R / (gr g ! i)
          + (3 - 4 * nu) * Int1 ext (gZ2 g ! i) (gr g ! i) R / (gr g ! i)
          - 2 * (zs ! i) * Int2 ext (gZ2 g ! i) (gr g ! i) R / (gr g ! i))"
    and "stress_sz ext coordinates R p nu g ! i =
     - p * (- Int4 ext (abs (gZ g ! i)) (gr g ! i) R
            + Int4 ext (gZ2 g ! i) (gr g ! i) R
            + 2 * (zs ! i) * Int6 ext (gZ2 g ! i) (gr g ! i) R)"
  using assms
  by (simp_all add: displacement_ur_def displacement_uz_def stress_sr_def stress_st_def
      stress_sz_def Let_def)

lemma fields_length:
  assumes "coordinates = [ys, xs, zs]" "length (gZ g) = N" "length (gr g) = N"
    "length (gZ2 g) = N" "length zs = N"
  shows "length (displacement_ur ext coordinates R p nu g) = N"
    and "length (displacement_uz ext coordinates R p nu g) = N"
    and "length (stress_sr ext coordinates R p nu g) = N"
    and "length (stress_st ext coordinates R p nu g) = N"
    and "length (stress_sz ext coordinates R p nu g) = N"
  using assms
  by (simp_all add: displacement_ur_def displacement_uz_def stress_sr_def stress_st_def
      stress_sz_def Let_def)

subsection \<open>The value of a call with well-formed arguments\<close>

lemma check_arguments_None:
  "check_arguments coordinates disk pressure poisson young = None \<longleftrightarrow>
     length disk = 5 \<and> length coordinates = 3
       \<and> isscalar pressure \<and> isscalar poisson \<and> isscalar young"
  by (simp add: check_arguments_def)

lemma displacement_value:
  assumes "length disk = 5" "length coordinates = 3"
  shows "Geertsma_disk_displacement ext coordinates disk (Scalar p) (Scalar nu) (Scalar E) =
     Inr (vscale (displacement_ur ext coordinates (disk ! 3) p nu (derive_geometry coordinates disk))
            (Cm ext nu E * disk ! 3 * disk ! 4 / 2),
          vscale (displacement_uz ext coordinates (disk ! 3) p nu (derive_geometry coordinates disk))
            (Cm ext nu E * disk ! 3 * disk ! 4 / 2))"
  using assms by (simp add: Geertsma_disk_displacement_def check_arguments_def Let_def)

lemma G_eq:
  "G nu E = (if 1 + nu = 0 then Inl ZeroDivisionError else Inr (E / (2 * (1 + nu))))"
  by (simp add: G_def)

lemma stress_value:
  assumes "length disk = 5" "length coordinates = 3"
  shows "Geertsma_disk_stress ext coordinates disk (Scalar p) (Scalar nu) (Scalar E) =
     (if 1 + nu = 0 then Inl ZeroDivisionError
      else Inr (vscale (stress_sr ext coordinates (disk ! 3) p nu (derive_geometry coordinates disk))
                  (E / (2 * (1 + nu)) * Cm ext nu E * disk ! 3 * disk ! 4),
                vscale (stress_st ext coordinates (disk ! 3) p nu (derive_geometry coordinates disk))
                  (E / (2 * (1 + nu)) * Cm ext nu E * disk ! 3 * disk ! 4),
                vscale (stress_sz ext coordinates (disk ! 3) p nu (derive_geometry coordinates disk))
                  (E / (2 * (1 + nu)) * Cm ext nu E * disk ! 3 * disk ! 4)))"
  using assms by (simp add: Geertsma_disk_stress_def check_arguments_def Let_def G_eq)

subsection \<open>The scenario used for concrete instances\<close>

text \<open>
  A disk at depth 1000 with radius 500 and thickness 50, one computation point at
  the surface above its centre, \<open>poisson = 0.25\<close>, \<open>young = 10000\<close> and
  \<open>pressure = -10\<close>. There \<open>Z = -1000\<close>, \<open>r = 1000\<close> and \<open>Z2 = 1000\<close>.
\<close>

lemma sqrt_scenario: "(1000::real) = sqrt ((0 - 0)\<^sup>2 + (0 - 0)\<^sup>2 + (0 - 1000)\<^sup>2)"
proof -
  have "sqrt ((1000::real)\<^sup>2) = 1000" by simp
  then show ?thesis by simp
qed

subsection \<open>Rounding to binary64\<close>

text \<open>
  Evaluating \<open>round_f64\<close>: the exponent and the nearest integer are unique, a tie
  goes to the even integer, and the rounded square root is found by squaring.
\<close>

lemma two_powr_int: "(2::real) powr of_int e = 2 powi e"
  by (simp add: powr_real_of_int')

lemma expo_eqI:
  assumes "2 powi e \<le> abs x" "abs x < 2 powi (e + 1)"
  shows "expo x = e"
proof -
  have "(0::real) < 2 powi e" by simp
  then have pos: "0 < abs x"
    using assms(1) by linarith
  have a: "of_int e \<le> log 2 (abs x)"
    using assms(1) pos by (simp add: le_log_iff two_powr_int)
  have "log 2 (abs x) < of_int (e + 1)"
    using assms(2) pos by (simp only: log_less_iff two_powr_int)
  then have b: "log 2 (abs x) < of_int e + 1" by simp
  show ?thesis unfolding expo_def using a b by (rule floor_unique)
qed

lemma rhe_near:
  assumes "abs (y - of_int n) < 1 / 2"
  shows "rhe y = n"
proof -
  consider "of_int n \<le> y" | "y < of_int n" by linarith
  then show ?thesis
  proof cases
    case 1
    then have "\<lfloor>y\<rfloor> = n" using assms by (intro floor_unique) (simp_all add: abs_if split: if_splits)
    then show ?thesis using assms 1 by (simp add: rhe_def Let_def)
  next
    case 2
    then have f: "\<lfloor>y\<rfloor> = n - 1" using assms by (intro floor_unique) (simp_all add: abs_if split: if_splits)
    have "1 / 2 < y - of_int (n - 1)" using assms 2 by (simp add: abs_if split: if_splits)
    then show ?thesis using f by (simp add: rhe_def Let_def)
  qed
qed

lemma round_f64_near:
  assumes "2 powi e \<le> abs x" "abs x < 2 powi (e + 1)"
    and "abs (x / 2 powi (e - 52) - of_int n) < 1 / 2"
  shows "round_f64 x = of_int n * 2 powi (e - 52)"
proof -
  have "(0::real) < 2 powi e" by simp
  then have "0 < abs x" using assms(1) by linarith
  then have nz: "x \<noteq> 0" by simp
  show ?thesis
    by (simp add: round_f64_def nz Let_def expo_eqI [OF assms(1,2)] rhe_near [OF assms(3)])
qed

lemma round_f64_one: "round_f64 1 = 1"
  using round_f64_near [of 0 1 "2 ^ 52"] by (simp add: power_int_minus)

lemma round_f64_two: "round_f64 2 = 2"
  using round_f64_near [of 1 2 "2 ^ 52"] by (simp add: power_int_minus)

lemma round_f64_four: "round_f64 4 = 4"
  using round_f64_near [of 2 4 "2 ^ 52"] by (simp add: power_int_minus)

lemma round_f64_tiny: "round_f64 (1 / 2 ^ 30) = 1 / 2 ^ 30"
  using round_f64_near [of "- 30" "1 / 2 ^ 30" "2 ^ 52"] by (simp add: power_int_minus)

lemma round_f64_tiny_sq: "round_f64 (1 / 2 ^ 60) = 1 / 2 ^ 60"
  using round_f64_near [of "- 60" "1 / 2 ^ 60" "2 ^ 52"] by (simp add: power_int_minus)

lemma round_f64_absorb: "round_f64 (1 / 2 ^ 60 + 4) = 4"
  using round_f64_near [of 2 "1 / 2 ^ 60 + 4" "2 ^ 52"] by (simp add: power_int_minus)

lemma round_f64_zero: "round_f64 0 = 0"
  by (simp add: round_f64_def)

lemma rhe_tie_even:
  assumes "even n"
  shows "rhe (of_int n + 1 / 2) = n"
proof -
  have "\<lfloor>of_int n + (1 / 2 :: real)\<rfloor> = n"
    by (intro floor_unique) simp_all
  then show ?thesis using assms by (simp add: rhe_def Let_def)
qed

lemma round_f64_tie_even:
  assumes "2 powi e \<le> abs x" "abs x < 2 powi (e + 1)"
    and "x / 2 powi (e - 52) = of_int n + 1 / 2" and "even n"
  shows "round_f64 x = of_int n * 2 powi (e - 52)"
proof -
  have "(0::real) < 2 powi e" by simp
  then have "0 < abs x" using assms(1) by linarith
  then have nz: "x \<noteq> 0" by simp
  show ?thesis
    by (simp add: round_f64_def nz Let_def expo_eqI [OF assms(1,2)] assms(3) rhe_tie_even [OF assms(4)])
qed

lemma round_f64_sqrt:
  assumes "0 < n"
    and "(2 powi e)\<^sup>2 \<le> x" and "x < (2 powi (e + 1))\<^sup>2"
    and "((of_int n - 1 / 2) * 2 powi (e - 52))\<^sup>2 < x"
    and "x < ((of_int n + 1 / 2) * 2 powi (e - 52))\<^sup>2"
  shows "round_f64 (sqrt x) = of_int n * 2 powi (e - 52)"
proof -
  let ?u = "(2::real) powi (e - 52)"
  have u: "0 < ?u" by simp
  have n: "(1::real) \<le> of_int n" using assms(1) by simp
  have lo: "2 powi e \<le> sqrt x"
    using assms(2) by (simp add: real_le_rsqrt)
  have hi: "sqrt x < 2 powi (e + 1)"
    using assms(3) by (intro real_less_lsqrt) simp_all
  have a: "(of_int n - 1 / 2) * ?u < sqrt x"
    using assms(4) by (rule real_less_rsqrt)
  have "0 \<le> (of_int n + 1 / 2) * ?u" using n u by simp
  then have b: "sqrt x < (of_int n + 1 / 2) * ?u"
    using assms(5) by (intro real_less_lsqrt) simp_all
  have a': "of_int n - 1 / 2 < sqrt x / ?u"
    using a u by (simp add: pos_less_divide_eq)
  have b': "sqrt x / ?u < of_int n + 1 / 2"
    using b u by (simp add: pos_divide_less_eq)
  have near: "abs (sqrt x / ?u - of_int n) < 1 / 2"
    using a' b' by linarith
  have "0 \<le> sqrt x" using lo by (smt (verit) zero_less_power_int)
  then have abs: "abs (sqrt x) = sqrt x" by simp
  show ?thesis
    using round_f64_near [of e "sqrt x" n] lo hi near by (simp add: abs)
qed



lemma nonfinite_signed_inf: "nonfinite (signed_inf s)"
  by (simp add: signed_inf_def)








section \<open>The displacement formulas\<close>

text \<open>
  C1. For arguments that pass the checks (a disk of five values, a coordinate array
  of three rows of \<open>N\<close> points, scalar pressure, poisson and young) the call
  returns, and the vertical displacement at point \<open>i\<close> is
  \<open>pressure * (sign Z * I3(|Z|, r, R) - (3 - 4 poisson) * I3(Z2, r, R) - 2 z I4(Z2, r, R))
  * Cm(poisson, young) * R * h / 2\<close>, where \<open>Z = z - D\<close> is the shifted and \<open>z\<close>
  the original vertical coordinate, and \<open>sign\<close> takes the values \<open>-1\<close>, \<open>0\<close>, \<open>1\<close>,
  the value \<open>0\<close> at \<open>Z = 0\<close> only.
\<close>

theorem vertical_displacement_formula:
  assumes "disk = [y0, x0, D, R, h]" and "coordinates = [ys, xs, zs]"
    and "length ys = N" and "length xs = N" and "length zs = N" and "i < N"
    and "z = zs ! i" and "Z = z - D"
    and "r = sqrt ((ys ! i - y0)\<^sup>2 + (xs ! i - x0)\<^sup>2 + Z\<^sup>2)" and "Z2 = Z + 2 * D"
  shows "\<exists>ur uz. Geertsma_disk_displacement ext coordinates disk
            (Scalar pressure) (Scalar poisson) (Scalar young) = Inr (ur, uz)
          \<and> length uz = N
          \<and> uz ! i = pressure * (sign Z * Int3 ext (abs Z) r R
                                 - (3 - 4 * poisson) * Int3 ext Z2 r R
                                 - 2 * z * Int4 ext Z2 r R)
                       * Cm ext poisson young * R * h / 2
          \<and> sign Z \<in> {- 1, 0, 1} \<and> (sign Z = 0 \<longleftrightarrow> Z = 0)"
proof -
  let ?g = "derive_geometry coordinates disk"
  note len = derive_geometry_length [OF assms(2-5), of disk]
  note nth = derive_geometry_nth [OF assms(1-6)]
  have uz: "displacement_uz ext coordinates R pressure poisson ?g ! i =
     pressure * (sign Z * Int3 ext (abs Z) r R - (3 - 4 * poisson) * Int3 ext Z2 r R
                 - 2 * z * Int4 ext Z2 r R)"
    using fields_nth(2) [OF assms(2) len(3) len(4) len(5) assms(5) assms(6)]
    by (simp add: nth assms(7-10))
  have luz: "length (displacement_uz ext coordinates R pressure poisson ?g) = N"
    using fields_length(2) [OF assms(2) len(3) len(4) len(5) assms(5)] .
  have sg: "sign Z \<in> {- 1, 0, 1} \<and> (sign Z = 0 \<longleftrightarrow> Z = 0)"
    by (simp add: sign_def)
  have val: "Geertsma_disk_displacement ext coordinates disk
       (Scalar pressure) (Scalar poisson) (Scalar young) =
     Inr (vscale (displacement_ur ext coordinates R pressure poisson ?g) (Cm ext poisson young * R * h / 2),
          vscale (displacement_uz ext coordinates R pressure poisson ?g) (Cm ext poisson young * R * h / 2))"
    using displacement_value [of disk coordinates ext pressure poisson young] assms(1,2) by simp
  show ?thesis
    unfolding val using uz luz sg assms(6) by auto
qed

theorem vertical_displacement_formula_witness:
  "\<exists>ur uz. Geertsma_disk_displacement sample_externals [[0], [0], [0]] [0, 0, 1000, 500, 50]
            (Scalar (- 10)) (Scalar (1 / 4)) (Scalar 10000) = Inr (ur, uz)
     \<and> length uz = 1
     \<and> uz ! 0 = - 10 * (sign (- 1000) * Int3 sample_externals (abs (- 1000)) 1000 500
                          - (3 - 4 * (1 / 4)) * Int3 sample_externals 1000 1000 500
                          - 2 * 0 * Int4 sample_externals 1000 1000 500)
                  * Cm sample_externals (1 / 4) 10000 * 500 * 50 / 2
     \<and> sign (- 1000) = - 1"
  using vertical_displacement_formula [of "[0, 0, 1000, 500, 50]" 0 0 1000 500 50
      "[[0], [0], [0]]" "[0]" "[0]" "[0]" 1 0 0 "- 1000" 1000 1000
      sample_externals "- 10" "1 / 4" 10000] sqrt_scenario
  by (simp add: sign_def)

text \<open>
  C4. Under the same conditions the radial displacement at point \<open>i\<close> is
  \<open>- pressure * (I1(|Z|, r, R) + (3 - 4 poisson) * I1(Z2, r, R) - 2 z I2(Z2, r, R))
  * Cm(poisson, young) * R * h / 2\<close>, with the original vertical coordinate \<open>z\<close> in
  the last term.
\<close>

theorem radial_displacement_formula:
  assumes "disk = [y0, x0, D, R, h]" and "coordinates = [ys, xs, zs]"
    and "length ys = N" and "length xs = N" and "length zs = N" and "i < N"
    and "z = zs ! i" and "Z = z - D"
    and "r = sqrt ((ys ! i - y0)\<^sup>2 + (xs ! i - x0)\<^sup>2 + Z\<^sup>2)" and "Z2 = Z + 2 * D"
  shows "\<exists>ur uz. Geertsma_disk_displacement ext coordinates disk
            (Scalar pressure) (Scalar poisson) (Scalar young) = Inr (ur, uz)
          \<and> length ur = N
          \<and> ur ! i = - pressure * (Int1 ext (abs Z) r R
                                   + (3 - 4 * poisson) * Int1 ext Z2 r R
                                   - 2 * z * Int2 ext Z2 r R)
                       * Cm ext poisson young * R * h / 2"
proof -
  let ?g = "derive_geometry coordinates disk"
  note len = derive_geometry_length [OF assms(2-5), of disk]
  note nth = derive_geometry_nth [OF assms(1-6)]
  have ur: "displacement_ur ext coordinates R pressure poisson ?g ! i =
     - pressure * (Int1 ext (abs Z) r R + (3 - 4 * poisson) * Int1 ext Z2 r R
                   - 2 * z * Int2 ext Z2 r R)"
    using fields_nth(1) [OF assms(2) len(3) len(4) len(5) assms(5) assms(6)]
    by (simp add: nth assms(7-10))
  have lur: "length (displacement_ur ext coordinates R pressure poisson ?g) = N"
    using fields_length(1) [OF assms(2) len(3) len(4) len(5) assms(5)] .
  have val: "Geertsma_disk_displacement ext coordinates disk
       (Scalar pressure) (Scalar poisson) (Scalar young) =
     Inr (vscale (displacement_ur ext coordinates R pressure poisson ?g) (Cm ext poisson young * R * h / 2),
          vscale (displacement_uz ext coordinates R pressure poisson ?g) (Cm ext poisson young * R * h / 2))"
    using displacement_value [of disk coordinates ext pressure poisson young] assms(1,2) by simp
  show ?thesis
    unfolding val using ur lur assms(6) by simp
qed

theorem radial_displacement_formula_witness:
  "\<exists>ur uz. Geertsma_disk_displacement sample_externals [[0], [0], [0]] [0, 0, 1000, 500, 50]
            (Scalar (- 10)) (Scalar (1 / 4)) (Scalar 10000) = Inr (ur, uz)
     \<and> length ur = 1
     \<and> ur ! 0 = - (- 10) * (Int1 sample_externals (abs (- 1000)) 1000 500
                          + (3 - 4 * (1 / 4)) * Int1 sample_externals 1000 1000 500
                          - 2 * 0 * Int2 sample_externals 1000 1000 500)
                  * Cm sample_externals (1 / 4) 10000 * 500 * 50 / 2"
  using radial_displacement_formula [of "[0, 0, 1000, 500, 50]" 0 0 1000 500 50
      "[[0], [0], [0]]" "[0]" "[0]" "[0]" 1 0 0 "- 1000" 1000 1000
      sample_externals "- 10" "1 / 4" 10000] sqrt_scenario
  by simp

section \<open>The stress formulas\<close>

text \<open>
  C9. For arguments that pass the checks and \<open>1 + poisson \<noteq> 0\<close>, where \<open>G\<close>
  returns, each of the returned components \<open>sr\<close>, \<open>st\<close>, \<open>sz\<close> is, at every point,
  its linear combination of values of the kernels I1, I2, I4 and I6, multiplied by
  the one factor \<open>aux = G(poisson, young) * Cm(poisson, young) * R * h\<close>, with
  \<open>G(poisson, young) = young / (2 (1 + poisson))\<close>.
\<close>

theorem stress_common_factor:
  assumes "disk = [y0, x0, D, R, h]" and "coordinates = [ys, xs, zs]"
    and "length ys = N" and "length xs = N" and "length zs = N" and "i < N"
    and "z = zs ! i" and "Z = z - D"
    and "r = sqrt ((ys ! i - y0)\<^sup>2 + (xs ! i - x0)\<^sup>2 + Z\<^sup>2)" and "Z2 = Z + 2 * D"
    and "1 + poisson \<noteq> 0"
    and "G poisson young = Inr shear"
    and "aux = shear * Cm ext poisson young * R * h"
  shows "\<exists>sr st sz. Geertsma_disk_stress ext coordinates disk
            (Scalar pressure) (Scalar poisson) (Scalar young) = Inr (sr, st, sz)
          \<and> sr ! i = pressure * (Int4 ext (abs Z) r R + 3 * Int4 ext Z2 r R
                                 - 2 * z * Int6 ext Z2 r R
                                 - Int1 ext (abs Z) r R / r
                                 + (3 - 4 * poisson) * Int1 ext Z2 r R / r
                                 - 2 * z * Int2 ext Z2 r R / r) * aux
          \<and> st ! i = pressure * (4 * poisson * Int4 ext Z2 r R
                                 + Int1 ext (abs Z) r R / r
                                 + (3 - 4 * poisson) * Int1 ext Z2 r R / r
                                 - 2 * z * Int2 ext Z2 r R / r) * aux
          \<and> sz ! i = - pressure * (- Int4 ext (abs Z) r R + Int4 ext Z2 r R
                                   + 2 * z * Int6 ext Z2 r R) * aux
          \<and> shear = young / (2 * (1 + poisson))"
proof -
  let ?g = "derive_geometry coordinates disk"
  note len = derive_geometry_length [OF assms(2-5), of disk]
  note nth = derive_geometry_nth [OF assms(1-6)]
  note f = fields_nth [OF assms(2) len(3) len(4) len(5) assms(5) assms(6)]
  note l = fields_length [OF assms(2) len(3) len(4) len(5) assms(5)]
  have shear: "shear = young / (2 * (1 + poisson))"
    using assms(11,12) by (simp add: G_eq)
  have sr: "stress_sr ext coordinates R pressure poisson ?g ! i =
      pressure * (Int4 ext (abs Z) r R + 3 * Int4 ext Z2 r R - 2 * z * Int6 ext Z2 r R
                  - Int1 ext (abs Z) r R / r + (3 - 4 * poisson) * Int1 ext Z2 r R / r
                  - 2 * z * Int2 ext Z2 r R / r)"
    using f(3) by (simp add: nth assms(7-10))
  have st: "stress_st ext coordinates R pressure poisson ?g ! i =
      pressure * (4 * poisson * Int4 ext Z2 r R + Int1 ext (abs Z) r R / r
                  + (3 - 4 * poisson) * Int1 ext Z2 r R / r - 2 * z * Int2 ext Z2 r R / r)"
    using f(4) by (simp add: nth assms(7-10))
  have sz: "stress_sz ext coordinates R pressure poisson ?g ! i =
      - pressure * (- Int4 ext (abs Z) r R + Int4 ext Z2 r R + 2 * z * Int6 ext Z2 r R)"
    using f(5) by (simp add: nth assms(7-10))
  have val: "Geertsma_disk_stress ext coordinates disk
       (Scalar pressure) (Scalar poisson) (Scalar young) =
     Inr (vscale (stress_sr ext coordinates R pressure poisson ?g) aux,
          vscale (stress_st ext coordinates R pressure poisson ?g) aux,
          vscale (stress_sz ext coordinates R pressure poisson ?g) aux)"
    using stress_value [of disk coordinates ext pressure poisson young] assms(1,2,11,13) shear
    by simp
  show ?thesis
    unfolding val using sr st sz l(3-5) assms(6) shear by simp
qed

theorem stress_common_factor_witness:
  "\<exists>sr st sz. Geertsma_disk_stress sample_externals [[0], [0], [0]] [0, 0, 1000, 500, 50]
            (Scalar (- 10)) (Scalar (1 / 4)) (Scalar 10000) = Inr (sr, st, sz)
     \<and> sr ! 0 = - 10 * (Int4 sample_externals (abs (- 1000)) 1000 500
                         + 3 * Int4 sample_externals 1000 1000 500
                         - 2 * 0 * Int6 sample_externals 1000 1000 500
                         - Int1 sample_externals (abs (- 1000)) 1000 500 / 1000
                         + (3 - 4 * (1 / 4)) * Int1 sample_externals 1000 1000 500 / 1000
                         - 2 * 0 * Int2 sample_externals 1000 1000 500 / 1000)
                 * (4000 * Cm sample_externals (1 / 4) 10000 * 500 * 50)
     \<and> st ! 0 = - 10 * (4 * (1 / 4) * Int4 sample_externals 1000 1000 500
                         + Int1 sample_externals (abs (- 1000)) 1000 500 / 1000
                         + (3 - 4 * (1 / 4)) * Int1 sample_externals 1000 1000 500 / 1000
                         - 2 * 0 * Int2 sample_externals 1000 1000 500 / 1000)
                 * (4000 * Cm sample_externals (1 / 4) 10000 * 500 * 50)
     \<and> sz ! 0 = - (- 10) * (- Int4 sample_externals (abs (- 1000)) 1000 500
                             + Int4 sample_externals 1000 1000 500
                             + 2 * 0 * Int6 sample_externals 1000 1000 500)
                 * (4000 * Cm sample_externals (1 / 4) 10000 * 500 * 50)
     \<and> G (1 / 4) 10000 = Inr 4000"
proof -
  have shear: "G (1 / 4) 10000 = Inr 4000"
    by (simp add: G_def)
  show ?thesis
    using stress_common_factor [of "[0, 0, 1000, 500, 50]" 0 0 1000 500 50
        "[[0], [0], [0]]" "[0]" "[0]" "[0]" 1 0 0 "- 1000" 1000 1000
        "1 / 4" 10000 4000 "4000 * Cm sample_externals (1 / 4) 10000 * 500 * 50"
        sample_externals "- 10"] sqrt_scenario shear
    by auto
qed

section \<open>Derived geometry\<close>

text \<open>
  C3. For arguments that pass the checks both public functions work on the same
  derived geometry: at every point \<open>Y = y - y0\<close>, \<open>X = x - x0\<close>, \<open>Z = z - D\<close>, the
  radius is the three-dimensional \<open>r = sqrt (Y\<^sup>2 + X\<^sup>2 + Z\<^sup>2)\<close>, not the horizontal
  \<open>sqrt (Y\<^sup>2 + X\<^sup>2)\<close>, and the mirror depth is \<open>Z2 = Z + 2 D\<close>. The displacement
  function returns its fields assembled from this geometry; so does the stress
  function, unless \<open>1 + poisson = 0\<close>, where its call of \<open>G\<close> raises
  \<open>ZeroDivisionError\<close>.
\<close>

theorem derived_geometry:
  assumes "disk = [y0, x0, D, R, h]" and "coordinates = [ys, xs, zs]"
    and "length ys = N" and "length xs = N" and "length zs = N" and "i < N"
    and "g = derive_geometry coordinates disk"
  shows "gY g ! i = ys ! i - y0 \<and> gX g ! i = xs ! i - x0 \<and> gZ g ! i = zs ! i - D
       \<and> gr g ! i = sqrt ((gY g ! i)\<^sup>2 + (gX g ! i)\<^sup>2 + (gZ g ! i)\<^sup>2)
       \<and> gZ2 g ! i = gZ g ! i + 2 * D
       \<and> Geertsma_disk_displacement ext coordinates disk (Scalar p) (Scalar nu) (Scalar E) =
           Inr (vscale (displacement_ur ext coordinates R p nu g) (Cm ext nu E * R * h / 2),
                vscale (displacement_uz ext coordinates R p nu g) (Cm ext nu E * R * h / 2))
       \<and> Geertsma_disk_stress ext coordinates disk (Scalar p) (Scalar nu) (Scalar E) =
           (if 1 + nu = 0 then Inl ZeroDivisionError
            else Inr (vscale (stress_sr ext coordinates R p nu g)
                        (E / (2 * (1 + nu)) * Cm ext nu E * R * h),
                      vscale (stress_st ext coordinates R p nu g)
                        (E / (2 * (1 + nu)) * Cm ext nu E * R * h),
                      vscale (stress_sz ext coordinates R p nu g)
                        (E / (2 * (1 + nu)) * Cm ext nu E * R * h)))"
proof -
  note nth = derive_geometry_nth [OF assms(1-6)]
  have d: "Geertsma_disk_displacement ext coordinates disk (Scalar p) (Scalar nu) (Scalar E) =
           Inr (vscale (displacement_ur ext coordinates R p nu g) (Cm ext nu E * R * h / 2),
                vscale (displacement_uz ext coordinates R p nu g) (Cm ext nu E * R * h / 2))"
    using displacement_value [of disk coordinates ext p nu E] assms(1,2,7) by simp
  have s: "Geertsma_disk_stress ext coordinates disk (Scalar p) (Scalar nu) (Scalar E) =
           (if 1 + nu = 0 then Inl ZeroDivisionError
            else Inr (vscale (stress_sr ext coordinates R p nu g)
                        (E / (2 * (1 + nu)) * Cm ext nu E * R * h),
                      vscale (stress_st ext coordinates R p nu g)
                        (E / (2 * (1 + nu)) * Cm ext nu E * R * h),
                      vscale (stress_sz ext coordinates R p nu g)
                        (E / (2 * (1 + nu)) * Cm ext nu E * R * h)))"
    using stress_value [of disk coordinates ext p nu E] assms(1,2,7) by simp
  show ?thesis
    unfolding d s by (simp add: assms(7) nth)
qed

text \<open>
  At the point \<open>(3, 4, 0)\<close> over a disk centred at depth 12 the radius is 13, while
  the horizontal distance from the axis is 5.
\<close>

theorem derived_geometry_witness:
  "gY (derive_geometry [[3], [4], [0]] [0, 0, 12, 500, 50]) ! 0 = 3 - 0
   \<and> gX (derive_geometry [[3], [4], [0]] [0, 0, 12, 500, 50]) ! 0 = 4 - 0
   \<and> gZ (derive_geometry [[3], [4], [0]] [0, 0, 12, 500, 50]) ! 0 = 0 - 12
   \<and> gr (derive_geometry [[3], [4], [0]] [0, 0, 12, 500, 50]) ! 0 = 13
   \<and> sqrt ((3 - 0)\<^sup>2 + (4 - 0)\<^sup>2) = (5::real)
   \<and> gZ2 (derive_geometry [[3], [4], [0]] [0, 0, 12, 500, 50]) ! 0 = 12"
proof -
  have r13: "sqrt (169::real) = 13"
    using real_sqrt_abs [of 13] by simp
  have r5: "sqrt (25::real) = 5"
    using real_sqrt_abs [of 5] by simp
  show ?thesis
    using derived_geometry [of "[0, 0, 12, 500, 50]" 0 0 12 500 50 "[[3], [4], [0]]"
        "[3]" "[4]" "[0]" 1 0 "derive_geometry [[3], [4], [0]] [0, 0, 12, 500, 50]"
        sample_externals 0 0 0]
    by (simp add: r13 r5)
qed

section \<open>Symmetries\<close>

subsection \<open>Sign of the pressure\<close>

lemma neg_fields:
  "displacement_ur ext coordinates R (- p) nu g = map uminus (displacement_ur ext coordinates R p nu g)"
  "displacement_uz ext coordinates R (- p) nu g = map uminus (displacement_uz ext coordinates R p nu g)"
  "stress_sr ext coordinates R (- p) nu g = map uminus (stress_sr ext coordinates R p nu g)"
  "stress_st ext coordinates R (- p) nu g = map uminus (stress_st ext coordinates R p nu g)"
  "stress_sz ext coordinates R (- p) nu g = map uminus (stress_sz ext coordinates R p nu g)"
  by (simp_all add: displacement_ur_def displacement_uz_def stress_sr_def stress_st_def
      stress_sz_def Let_def smul_def)

lemma vscale_uminus: "vscale (map uminus xs) c = map uminus (vscale xs c)"
  by (simp add: vscale_def)

text \<open>
  C7. The outputs are odd in the pressure: for arguments that pass the checks, the
  call with \<open>- pressure\<close> returns the negation of every entry of \<open>ur\<close> and \<open>uz\<close>
  returned for \<open>pressure\<close>, and likewise of every entry of \<open>sr\<close>, \<open>st\<close> and \<open>sz\<close>;
  the stress function returns for \<open>1 + poisson \<noteq> 0\<close>, and raises
  \<open>ZeroDivisionError\<close> at either sign of the pressure otherwise.
\<close>

theorem pressure_antisymmetry:
  assumes "length disk = 5" and "length coordinates = 3"
  shows "(\<exists>ur uz.
        Geertsma_disk_displacement ext coordinates disk (Scalar p) (Scalar nu) (Scalar E) = Inr (ur, uz)
      \<and> Geertsma_disk_displacement ext coordinates disk (Scalar (- p)) (Scalar nu) (Scalar E) =
          Inr (map uminus ur, map uminus uz))
    \<and> (1 + nu \<noteq> 0 \<longrightarrow>
        (\<exists>sr st sz.
          Geertsma_disk_stress ext coordinates disk (Scalar p) (Scalar nu) (Scalar E) = Inr (sr, st, sz)
        \<and> Geertsma_disk_stress ext coordinates disk (Scalar (- p)) (Scalar nu) (Scalar E) =
            Inr (map uminus sr, map uminus st, map uminus sz)))
    \<and> (1 + nu = 0 \<longrightarrow>
          Geertsma_disk_stress ext coordinates disk (Scalar p) (Scalar nu) (Scalar E)
            = Inl ZeroDivisionError
        \<and> Geertsma_disk_stress ext coordinates disk (Scalar (- p)) (Scalar nu) (Scalar E)
            = Inl ZeroDivisionError)"
  by (simp add: displacement_value [OF assms] stress_value [OF assms] neg_fields vscale_uminus)

theorem pressure_antisymmetry_witness:
  "(\<exists>ur uz.
      Geertsma_disk_displacement sample_externals [[0], [0], [0]] [0, 0, 1000, 500, 50]
        (Scalar 10) (Scalar (1 / 4)) (Scalar 10000) = Inr (ur, uz)
    \<and> Geertsma_disk_displacement sample_externals [[0], [0], [0]] [0, 0, 1000, 500, 50]
        (Scalar (- 10)) (Scalar (1 / 4)) (Scalar 10000) = Inr (map uminus ur, map uminus uz))
   \<and> (\<exists>sr st sz.
      Geertsma_disk_stress sample_externals [[0], [0], [0]] [0, 0, 1000, 500, 50]
        (Scalar 10) (Scalar (1 / 4)) (Scalar 10000) = Inr (sr, st, sz)
    \<and> Geertsma_disk_stress sample_externals [[0], [0], [0]] [0, 0, 1000, 500, 50]
        (Scalar (- 10)) (Scalar (1 / 4)) (Scalar 10000) =
        Inr (map uminus sr, map uminus st, map uminus sz))
   \<and> Geertsma_disk_stress sample_externals [[0], [0], [0]] [0, 0, 1000, 500, 50]
        (Scalar 10) (Scalar (- 1)) (Scalar 10000) = Inl ZeroDivisionError"
  using pressure_antisymmetry [of "[0, 0, 1000, 500, 50]" "[[0], [0], [0]]" sample_externals
      10 "1 / 4" 10000]
    pressure_antisymmetry [of "[0, 0, 1000, 500, 50]" "[[0], [0], [0]]" sample_externals
      10 "- 1" 10000]
  by simp

subsection \<open>Rotation about the axis of the disk\<close>

text \<open>
  In double precision, for the disk \<open>(0, 0, 1000, 500, 50)\<close> and the two points
  \<open>(3k, 4k, 0)\<close> and \<open>(5k, 0, 0)\<close> with \<open>k = 100 (1 + 3 * 2 powi (- 25))\<close>, whose
  coordinates are binary64 numbers: the statement \<open>r = np.sqrt(Y**2 + X**2 + Z**2)\<close>
  evaluated step by step. At the first point both sums are ties.
\<close>

lemma rot_Z: "fsub 0 1000 = (- 1000)"
  using round_f64_near [of "9" "(- 1000)" "- 8796093022208000"] by (simp add: fsub_def power_int_minus)

lemma rot_ZZ: "fmul (- 1000) (- 1000) = 1000000"
  using round_f64_near [of "19" "1000000" "8589934592000000"] by (simp add: fmul_def power_int_minus)

lemma rot_a_Y: "fsub (2516582625 / 8388608) 0 = (2516582625 / 8388608)"
  using round_f64_near [of "8" "(2516582625 / 8388608)" "5277656285184000"] by (simp add: fsub_def power_int_minus)

lemma rot_a_X: "fsub (838860875 / 2097152) 0 = (838860875 / 2097152)"
  using round_f64_near [of "8" "(838860875 / 2097152)" "7036875046912000"] by (simp add: fsub_def power_int_minus)

lemma rot_a_YY: "fmul (2516582625 / 8388608) (2516582625 / 8388608) = (6184754012160049 / 68719476736)"
  using round_f64_near [of "16" "(6333188108451890625 / 70368744177664)" "6184754012160049"] by (simp add: fmul_def power_int_minus)

lemma rot_a_XX: "fmul (838860875 / 2097152) (838860875 / 2097152) = (1374389780480011 / 8589934592)"
  using round_f64_near [of "17" "(703687567605765625 / 4398046511104)" "5497559121920044"] by (simp add: fmul_def power_int_minus)

lemma rot_a_S1: "fadd (6184754012160049 / 68719476736) (1374389780480011 / 8589934592) = (2147484032000017 / 8589934592)"
  using round_f64_tie_even [of "17" "(17179872256000137 / 68719476736)" "8589936128000068"] by (simp add: fadd_def power_int_minus)

lemma rot_a_S2: "fadd (2147484032000017 / 8589934592) 1000000 = (671088664000001 / 536870912)"
  using round_f64_tie_even [of "20" "(10737418624000017 / 8589934592)" "5368709312000008"] by (simp add: fadd_def power_int_minus)

lemma rot_a_r: "fsqrt (671088664000001 / 536870912) = (4917165571442937 / 4398046511104)"
  using round_f64_sqrt [of "4917165571442937" "10" "(671088664000001 / 536870912)"] by (simp add: fsqrt_def power_int_minus power2_eq_square)

lemma rot_a_radius: "radius_f64 (2516582625 / 8388608) (838860875 / 2097152) 0 0 0 1000 = (4917165571442937 / 4398046511104)"
  unfolding radius_f64_def Let_def rot_a_Y rot_a_X rot_a_YY rot_a_XX rot_a_S1 rot_a_S2 rot_Z rot_ZZ by (rule rot_a_r)

lemma rot_b_Y: "fsub (4194304375 / 8388608) 0 = (4194304375 / 8388608)"
  using round_f64_near [of "8" "(4194304375 / 8388608)" "8796093808640000"] by (simp add: fsub_def power_int_minus)

lemma rot_b_X: "fsub 0 0 = 0"
  by (simp add: fsub_def round_f64_zero)

lemma rot_b_YY: "fmul (4194304375 / 8388608) (4194304375 / 8388608) = (8589936128000069 / 34359738368)"
  using round_f64_near [of "17" "(17592189190144140625 / 70368744177664)" "8589936128000069"] by (simp add: fmul_def power_int_minus)

lemma rot_b_XX: "fmul 0 0 = 0"
  by (simp add: fmul_def round_f64_zero)

lemma rot_b_S1: "fadd (8589936128000069 / 34359738368) 0 = (8589936128000069 / 34359738368)"
  using round_f64_near [of "17" "(8589936128000069 / 34359738368)" "8589936128000069"] by (simp add: fadd_def power_int_minus)

lemma rot_b_S2: "fadd (8589936128000069 / 34359738368) 1000000 = (5368709312000009 / 4294967296)"
  using round_f64_near [of "20" "(42949674496000069 / 34359738368)" "5368709312000009"] by (simp add: fadd_def power_int_minus)

lemma rot_b_r: "fsqrt (5368709312000009 / 4294967296) = (2458582785721469 / 2199023255552)"
  using round_f64_sqrt [of "4917165571442938" "10" "(5368709312000009 / 4294967296)"] by (simp add: fsqrt_def power_int_minus power2_eq_square)

lemma rot_b_radius: "radius_f64 (4194304375 / 8388608) 0 0 0 0 1000 = (2458582785721469 / 2199023255552)"
  unfolding radius_f64_def Let_def rot_b_Y rot_b_X rot_b_YY rot_b_XX rot_b_S1 rot_b_S2 rot_Z rot_ZZ by (rule rot_b_r)

lemma rot_horizontal:
  "sqrt ((2516582625 / 8388608 - 0)\<^sup>2 + (838860875 / 2097152 - 0)\<^sup>2)
     = sqrt ((4194304375 / 8388608 - 0)\<^sup>2 + (0 - 0)\<^sup>2)"
  by (simp add: power2_eq_square)

text \<open>
  C8, as stated, fails for the values the functions compute. The two points have
  the same vertical coordinate and the same horizontal distance from the axis, and
  the code computes for them two different radii \<open>r\<close>,
  \<open>4917165571442937 * 2 powi (- 42)\<close> and \<open>4917165571442938 * 2 powi (- 42)\<close>; \<open>r\<close>
  is an argument of every kernel call behind every output.
\<close>

theorem rotational_invariance_f64_counterexample:
  "(0::real) = 0
   \<and> sqrt ((2516582625 / 8388608 - 0)\<^sup>2 + (838860875 / 2097152 - 0)\<^sup>2)
       = sqrt ((4194304375 / 8388608 - 0)\<^sup>2 + (0 - 0)\<^sup>2)
   \<and> radius_f64 (2516582625 / 8388608) (838860875 / 2097152) 0 0 0 1000
       = 4917165571442937 / 4398046511104
   \<and> radius_f64 (4194304375 / 8388608) 0 0 0 0 1000
       = 4917165571442938 / 4398046511104
   \<and> radius_f64 (2516582625 / 8388608) (838860875 / 2097152) 0 0 0 1000
       \<noteq> radius_f64 (4194304375 / 8388608) 0 0 0 0 1000"
  unfolding rot_a_radius rot_b_radius
  using rot_horizontal by simp

text \<open>
  C8, amended. In exact arithmetic, two computation points with the same vertical
  coordinate and the same horizontal distance \<open>sqrt ((y - y0)\<^sup>2 + (x - x0)\<^sup>2)\<close> from
  the axis of the disk receive the same value in every output of the displacement
  function, and in every output of the stress function when \<open>1 + poisson \<noteq> 0\<close>.
  In double precision two such points can be given different radii \<open>r\<close>: for the
  disk \<open>(0, 0, 1000, 500, 50)\<close> the points \<open>(3k, 4k, 0)\<close> and \<open>(5k, 0, 0)\<close> with
  \<open>k = 100 (1 + 3 * 2 powi (- 25))\<close> get \<open>4917165571442937 * 2 powi (- 42)\<close> and
  \<open>4917165571442938 * 2 powi (- 42)\<close>.
\<close>

theorem rotational_invariance:
  assumes "disk = [y0, x0, D, R, h]" and "coordinates = [ys, xs, zs]"
    and "length ys = N" and "length xs = N" and "length zs = N"
    and "i < N" and "j < N"
    and "zs ! i = zs ! j"
    and "sqrt ((ys ! i - y0)\<^sup>2 + (xs ! i - x0)\<^sup>2) = sqrt ((ys ! j - y0)\<^sup>2 + (xs ! j - x0)\<^sup>2)"
  shows "(\<exists>ur uz.
        Geertsma_disk_displacement ext coordinates disk (Scalar p) (Scalar nu) (Scalar E) = Inr (ur, uz)
      \<and> ur ! i = ur ! j \<and> uz ! i = uz ! j)
    \<and> (1 + nu \<noteq> 0 \<longrightarrow>
        (\<exists>sr st sz.
          Geertsma_disk_stress ext coordinates disk (Scalar p) (Scalar nu) (Scalar E) = Inr (sr, st, sz)
        \<and> sr ! i = sr ! j \<and> st ! i = st ! j \<and> sz ! i = sz ! j))
    \<and> radius_f64 (2516582625 / 8388608) (838860875 / 2097152) 0 0 0 1000
        = 4917165571442937 / 4398046511104
    \<and> radius_f64 (4194304375 / 8388608) 0 0 0 0 1000
        = 4917165571442938 / 4398046511104"
proof -
  let ?g = "derive_geometry coordinates disk"
  note len = derive_geometry_length [OF assms(2-5), of disk]
  note nthi = derive_geometry_nth [OF assms(1-6)]
  note nthj = derive_geometry_nth [OF assms(1-5) assms(7)]
  have hor: "(ys ! i - y0)\<^sup>2 + (xs ! i - x0)\<^sup>2 = (ys ! j - y0)\<^sup>2 + (xs ! j - x0)\<^sup>2"
    using assms(9) by simp
  have Z: "gZ ?g ! i = gZ ?g ! j"
    by (simp add: nthi(3) nthj(3) assms(8))
  have Z2: "gZ2 ?g ! i = gZ2 ?g ! j"
    by (simp add: nthi(5) nthj(5) assms(8))
  have r: "gr ?g ! i = gr ?g ! j"
    by (simp add: nthi(4) nthj(4) assms(8) hor)
  note fi = fields_nth [OF assms(2) len(3) len(4) len(5) assms(5) assms(6)]
  note fj = fields_nth [OF assms(2) len(3) len(4) len(5) assms(5) assms(7)]
  note l = fields_length [OF assms(2) len(3) len(4) len(5) assms(5)]
  have eq: "displacement_ur ext coordinates R p nu ?g ! i = displacement_ur ext coordinates R p nu ?g ! j"
    "displacement_uz ext coordinates R p nu ?g ! i = displacement_uz ext coordinates R p nu ?g ! j"
    "stress_sr ext coordinates R p nu ?g ! i = stress_sr ext coordinates R p nu ?g ! j"
    "stress_st ext coordinates R p nu ?g ! i = stress_st ext coordinates R p nu ?g ! j"
    "stress_sz ext coordinates R p nu ?g ! i = stress_sz ext coordinates R p nu ?g ! j"
    by (simp_all only: fi fj Z Z2 r assms(8))
  have d: "Geertsma_disk_displacement ext coordinates disk (Scalar p) (Scalar nu) (Scalar E) =
           Inr (vscale (displacement_ur ext coordinates R p nu ?g) (Cm ext nu E * R * h / 2),
                vscale (displacement_uz ext coordinates R p nu ?g) (Cm ext nu E * R * h / 2))"
    using displacement_value [of disk coordinates ext p nu E] assms(1,2) by simp
  have s: "1 + nu \<noteq> 0 \<Longrightarrow>
           Geertsma_disk_stress ext coordinates disk (Scalar p) (Scalar nu) (Scalar E) =
           Inr (vscale (stress_sr ext coordinates R p nu ?g) (E / (2 * (1 + nu)) * Cm ext nu E * R * h),
                vscale (stress_st ext coordinates R p nu ?g) (E / (2 * (1 + nu)) * Cm ext nu E * R * h),
                vscale (stress_sz ext coordinates R p nu ?g) (E / (2 * (1 + nu)) * Cm ext nu E * R * h))"
    using stress_value [of disk coordinates ext p nu E] assms(1,2) by simp
  have disp: "\<exists>ur uz.
        Geertsma_disk_displacement ext coordinates disk (Scalar p) (Scalar nu) (Scalar E) = Inr (ur, uz)
      \<and> ur ! i = ur ! j \<and> uz ! i = uz ! j"
    unfolding d using eq l assms(6,7) by simp
  have str: "\<exists>sr st sz.
          Geertsma_disk_stress ext coordinates disk (Scalar p) (Scalar nu) (Scalar E) = Inr (sr, st, sz)
        \<and> sr ! i = sr ! j \<and> st ! i = st ! j \<and> sz ! i = sz ! j" if "1 + nu \<noteq> 0"
    unfolding s [OF that] using eq l assms(6,7) by simp
  have ra: "radius_f64 (2516582625 / 8388608) (838860875 / 2097152) 0 0 0 1000
        = 4917165571442937 / 4398046511104"
    using rot_a_radius by simp
  have rb: "radius_f64 (4194304375 / 8388608) 0 0 0 0 1000
        = 4917165571442938 / 4398046511104"
    using rot_b_radius by simp
  show ?thesis
    using disp str ra rb by blast
qed

text \<open>The points \<open>(3, 4)\<close> and \<open>(5, 0)\<close> both lie at distance 5 from the axis.\<close>

theorem rotational_invariance_witness:
  "(\<exists>ur uz.
      Geertsma_disk_displacement sample_externals [[3, 5], [4, 0], [0, 0]] [0, 0, 1000, 500, 50]
        (Scalar (- 10)) (Scalar (1 / 4)) (Scalar 10000) = Inr (ur, uz)
    \<and> ur ! 0 = ur ! 1 \<and> uz ! 0 = uz ! 1)
   \<and> (\<exists>sr st sz.
      Geertsma_disk_stress sample_externals [[3, 5], [4, 0], [0, 0]] [0, 0, 1000, 500, 50]
        (Scalar (- 10)) (Scalar (1 / 4)) (Scalar 10000) = Inr (sr, st, sz)
    \<and> sr ! 0 = sr ! 1 \<and> st ! 0 = st ! 1 \<and> sz ! 0 = sz ! 1)"
  using rotational_invariance [of "[0, 0, 1000, 500, 50]" 0 0 1000 500 50
      "[[3, 5], [4, 0], [0, 0]]" "[3, 5]" "[4, 0]" "[0, 0]" 2 0 1
      sample_externals "- 10" "1 / 4" 10000]
  by simp

section \<open>Validation of the arguments\<close>

text \<open>
  C5. Both public functions raise the assertion error exactly when a precondition
  fails: \<open>disk\<close> does not have five values, \<open>coordinates\<close> does not have three
  rows, or one of pressure, poisson, young is not a scalar. The error comes before
  any output is computed: on the store, a call that fails leaves the store as it
  was, with no array allocated. Arguments that meet all preconditions raise no such
  error.
\<close>

theorem validation_errors:
  assumes "rows_of (s ! cref) = coordinates" and "items_of (s ! dref) = disk"
  shows
   "((\<exists>msg. Geertsma_disk_displacement ext coordinates disk pressure poisson young
             = Inl (AssertionError msg))
      \<longleftrightarrow> (length disk \<noteq> 5 \<or> length coordinates \<noteq> 3
           \<or> \<not> isscalar pressure \<or> \<not> isscalar poisson \<or> \<not> isscalar young))
   \<and> ((\<exists>msg. Geertsma_disk_stress ext coordinates disk pressure poisson young
             = Inl (AssertionError msg))
      \<longleftrightarrow> (length disk \<noteq> 5 \<or> length coordinates \<noteq> 3
           \<or> \<not> isscalar pressure \<or> \<not> isscalar poisson \<or> \<not> isscalar young))
   \<and> ((length disk \<noteq> 5 \<or> length coordinates \<noteq> 3
           \<or> \<not> isscalar pressure \<or> \<not> isscalar poisson \<or> \<not> isscalar young)
      \<longrightarrow> (\<exists>msg. Geertsma_disk_displacement_store ext cref dref pressure poisson young s
                   = (Inl (AssertionError msg), s))
        \<and> (\<exists>msg. Geertsma_disk_stress_store ext cref dref pressure poisson young s
                   = (Inl (AssertionError msg), s)))"
proof -
  have pure: "\<And>f g. (\<exists>msg. (case check_arguments coordinates disk pressure poisson young of
                   None \<Rightarrow> Inr f | Some e \<Rightarrow> Inl e) = Inl (AssertionError msg))
      \<longleftrightarrow> (length disk \<noteq> 5 \<or> length coordinates \<noteq> 3
           \<or> \<not> isscalar pressure \<or> \<not> isscalar poisson \<or> \<not> isscalar young)"
    by (auto simp add: check_arguments_def)
  have d: "(\<exists>msg. Geertsma_disk_displacement ext coordinates disk pressure poisson young
             = Inl (AssertionError msg))
      \<longleftrightarrow> (length disk \<noteq> 5 \<or> length coordinates \<noteq> 3
           \<or> \<not> isscalar pressure \<or> \<not> isscalar poisson \<or> \<not> isscalar young)"
    unfolding Geertsma_disk_displacement_def Let_def by (rule pure)
  have t: "(\<exists>msg. Geertsma_disk_stress ext coordinates disk pressure poisson young
             = Inl (AssertionError msg))
      \<longleftrightarrow> (length disk \<noteq> 5 \<or> length coordinates \<noteq> 3
           \<or> \<not> isscalar pressure \<or> \<not> isscalar poisson \<or> \<not> isscalar young)"
    by (auto simp add: Geertsma_disk_stress_def Let_def check_arguments_def G_def
        split: option.splits sum.splits if_splits)
  have st: "(length disk \<noteq> 5 \<or> length coordinates \<noteq> 3
           \<or> \<not> isscalar pressure \<or> \<not> isscalar poisson \<or> \<not> isscalar young)
      \<longrightarrow> (\<exists>msg. Geertsma_disk_displacement_store ext cref dref pressure poisson young s
                   = (Inl (AssertionError msg), s))
        \<and> (\<exists>msg. Geertsma_disk_stress_store ext cref dref pressure poisson young s
                   = (Inl (AssertionError msg), s))"
    by (auto simp add: Geertsma_disk_displacement_store_def Geertsma_disk_stress_store_def
        assms check_arguments_def)
  show ?thesis using d t st by blast
qed

theorem validation_errors_witness:
  "(\<exists>msg. Geertsma_disk_displacement sample_externals [[0], [0], [0]] [0, 0, 1000, 500]
            (Scalar (- 10)) (Scalar (1 / 4)) (Scalar 10000) = Inl (AssertionError msg))
   \<and> (\<exists>msg. Geertsma_disk_stress sample_externals [[0], [0], [0]] [0, 0, 1000, 500]
            (Scalar (- 10)) (Scalar (1 / 4)) (Scalar 10000) = Inl (AssertionError msg))
   \<and> (\<exists>msg. Geertsma_disk_displacement_store sample_externals 0 1
            (Scalar (- 10)) (Scalar (1 / 4)) (Scalar 10000)
            [Ndarray2 [[0], [0], [0]], PyList [0, 0, 1000, 500]]
          = (Inl (AssertionError msg), [Ndarray2 [[0], [0], [0]], PyList [0, 0, 1000, 500]]))
   \<and> \<not> (\<exists>msg. Geertsma_disk_displacement sample_externals [[0], [0], [0]] [0, 0, 1000, 500, 50]
            (Scalar (- 10)) (Scalar (1 / 4)) (Scalar 10000) = Inl (AssertionError msg))"
  using validation_errors [of "[Ndarray2 [[0], [0], [0]], PyList [0, 0, 1000, 500]]" 0
        "[[0], [0], [0]]" 1 "[0, 0, 1000, 500]" sample_externals
        "Scalar (- 10)" "Scalar (1 / 4)" "Scalar 10000"]
    validation_errors [of "[Ndarray2 [[0], [0], [0]], PyList [0, 0, 1000, 500, 50]]" 0
        "[[0], [0], [0]]" 1 "[0, 0, 1000, 500, 50]" sample_externals
        "Scalar (- 10)" "Scalar (1 / 4)" "Scalar 10000"]
  by simp

section \<open>The kernels\<close>

subsection \<open>I3 on the rim\<close>


lemma round_f64_half: "round_f64 (1 / 2) = 1 / 2"
  using round_f64_near [of "- 1" "1 / 2" "2 ^ 52"] by (simp add: power_int_minus)











subsection \<open>Range of the modulus\<close>

text \<open>
  The computed modulus at \<open>q = 2 powi (- 30)\<close>, \<open>r = R = 1\<close>: the sum
  \<open>q**2 + (r+R)**2\<close> is rounded to \<open>4\<close>.
\<close>

lemma modulus_f64_tiny_q: "modulus_f64 (1 / 2 ^ 30) 1 1 = 1"
proof -
  have num: "fmul (fmul 4 1) 1 = 4"
    by (simp add: fmul_def round_f64_four)
  have qq: "fmul (1 / 2 ^ 30) (1 / 2 ^ 30) = 1 / 2 ^ 60"
    using round_f64_tiny_sq by (simp add: fmul_def)
  have rR: "fadd 1 1 = 2"
    by (simp add: fadd_def round_f64_two)
  have sq: "fmul 2 2 = 4"
    by (simp add: fmul_def round_f64_four)
  have den: "fadd (1 / 2 ^ 60) 4 = 4"
    unfolding fadd_def by (rule round_f64_absorb)
  have quot: "fdiv 4 4 = 1"
    by (simp add: fdiv_def round_f64_one)
  show ?thesis
    unfolding modulus_f64_def num qq rR sq den quot ..
qed

text \<open>
  The computed modulus at \<open>q = 0\<close>, \<open>r = 1\<close>, \<open>R = 1 + 2 powi (- 52)\<close>, the binary64
  number after \<open>1\<close>: the sum \<open>r + R\<close> is a tie and is rounded down to \<open>2\<close>, while
  \<open>4*R*r\<close> is exact.
\<close>

lemma above_a: "fmul 4 (4503599627370497 / 4503599627370496) = (4503599627370497 / 1125899906842624)"
  using round_f64_near [of "2" "(4503599627370497 / 1125899906842624)" "4503599627370497"] by (simp add: fmul_def power_int_minus)

lemma above_b: "fmul (4503599627370497 / 1125899906842624) 1 = (4503599627370497 / 1125899906842624)"
  using round_f64_near [of "2" "(4503599627370497 / 1125899906842624)" "4503599627370497"] by (simp add: fmul_def power_int_minus)

lemma above_c: "fmul 0 0 = 0"
  by (simp add: fmul_def round_f64_zero)

lemma above_d: "fadd 1 (4503599627370497 / 4503599627370496) = 2"
  using round_f64_tie_even [of "1" "(9007199254740993 / 4503599627370496)" "4503599627370496"] by (simp add: fadd_def power_int_minus)

lemma above_e: "fmul 2 2 = 4"
  using round_f64_near [of "2" "4" "4503599627370496"] by (simp add: fmul_def power_int_minus)

lemma above_f: "fadd 0 4 = 4"
  using round_f64_near [of "2" "4" "4503599627370496"] by (simp add: fadd_def power_int_minus)

lemma above_g: "fdiv (4503599627370497 / 1125899906842624) 4 = (4503599627370497 / 4503599627370496)"
  using round_f64_near [of "0" "(4503599627370497 / 4503599627370496)" "4503599627370497"] by (simp add: fdiv_def power_int_minus)

lemma modulus_f64_above_one_lit: "modulus_f64 0 1 (4503599627370497 / 4503599627370496) = (4503599627370497 / 4503599627370496)"
  unfolding modulus_f64_def above_a above_b above_c above_d above_e above_f by (rule above_g)

lemma modulus_f64_above_one: "modulus_f64 0 1 (1 + 1 / 2 ^ 52) = 1 + 1 / 2 ^ 52"
  using modulus_f64_above_one_lit by simp

lemma round_f64_next_one: "round_f64 (1 + 1 / 2 ^ 52) = 1 + 1 / 2 ^ 52"
  using round_f64_near [of 0 "1 + 1 / 2 ^ 52" "2 ^ 52 + 1"] by (simp add: power_int_minus)

text \<open>
  C6, as stated, fails for the value the kernels compute. The numbers \<open>q = 2 powi (- 30)\<close>
  and \<open>r = R = 1\<close> are binary64 numbers with \<open>R > 0\<close>, \<open>r \<ge> 0\<close>, \<open>q \<ge> 0\<close> and
  \<open>q \<noteq> 0\<close>; the sum \<open>q**2 + (r+R)**2\<close> is rounded to \<open>4\<close>, and the computed
  modulus is exactly \<open>1\<close>, not below it.
\<close>

theorem modulus_f64_counterexample:
  "(0::real) < 1 \<and> (0::real) \<le> 1 \<and> (0::real) \<le> 1 / 2 ^ 30
   \<and> \<not> ((1 / 2 ^ 30 :: real) = 0 \<and> (1::real) = 1)
   \<and> round_f64 (1 / 2 ^ 30) = 1 / 2 ^ 30 \<and> round_f64 1 = 1
   \<and> modulus_f64 (1 / 2 ^ 30) 1 1 = 1
   \<and> \<not> modulus_f64 (1 / 2 ^ 30) 1 1 < 1"
proof -
  have num: "fmul (fmul 4 1) 1 = 4"
    by (simp add: fmul_def round_f64_four)
  have qq: "fmul (1 / 2 ^ 30) (1 / 2 ^ 30) = 1 / 2 ^ 60"
    using round_f64_tiny_sq by (simp add: fmul_def)
  have rR: "fadd 1 1 = 2"
    by (simp add: fadd_def round_f64_two)
  have sq: "fmul 2 2 = 4"
    by (simp add: fmul_def round_f64_four)
  have den: "fadd (1 / 2 ^ 60) 4 = 4"
    unfolding fadd_def by (rule round_f64_absorb)
  have quot: "fdiv 4 4 = 1"
    by (simp add: fdiv_def round_f64_one)
  have m: "modulus_f64 (1 / 2 ^ 30) 1 1 = 1"
    unfolding modulus_f64_def num qq rR sq den quot ..
  show ?thesis
    using m round_f64_tiny round_f64_one by simp
qed

text \<open>
  C6, amended. In exact arithmetic, for \<open>R > 0\<close>, \<open>r \<ge> 0\<close> and \<open>q \<ge> 0\<close> the
  modulus \<open>m = 4 R r / (q\<^sup>2 + (r + R)\<^sup>2)\<close> lies in \<open>[0, 1]\<close>, equals \<open>1\<close> exactly when
  \<open>q = 0\<close> and \<open>r = R\<close>, and so lies in \<open>[0, 1)\<close> in every other case. The binary64
  value the kernels compute does not keep to this range: it is exactly \<open>1\<close> at
  \<open>q = 2 powi (- 30)\<close>, \<open>r = R = 1\<close>, and it is \<open>1 + 2 powi (- 52)\<close>, above \<open>1\<close>, at
  \<open>q = 0\<close>, \<open>r = 1\<close>, \<open>R = 1 + 2 powi (- 52)\<close>.
\<close>

theorem modulus_exact_range:
  assumes "0 < R" and "0 \<le> r" and "0 \<le> q"
  shows "0 \<le> modulus q r R \<and> modulus q r R \<le> 1
       \<and> (modulus q r R = 1 \<longleftrightarrow> q = 0 \<and> r = R)
       \<and> (\<not> (q = 0 \<and> r = R) \<longrightarrow> modulus q r R < 1)
       \<and> modulus_f64 (1 / 2 ^ 30) 1 1 = 1
       \<and> round_f64 (1 + 1 / 2 ^ 52) = 1 + 1 / 2 ^ 52
       \<and> modulus_f64 0 1 (1 + 1 / 2 ^ 52) = 1 + 1 / 2 ^ 52"
proof -
  let ?d = "q\<^sup>2 + (r + R)\<^sup>2"
  have "0 < r + R" using assms by simp
  then have "0 < (r + R)\<^sup>2" by simp
  moreover have "0 \<le> q\<^sup>2" by simp
  ultimately have dpos: "0 < ?d" by linarith
  have diff: "?d - 4 * R * r = q\<^sup>2 + (r - R)\<^sup>2"
    by (simp add: power2_eq_square algebra_simps)
  have nonneg: "0 \<le> modulus q r R"
    using assms dpos by (simp add: modulus_def)
  have le: "4 * R * r \<le> ?d"
    using diff by (smt (verit) zero_le_power2)
  have le1: "modulus q r R \<le> 1"
    using le dpos by (simp add: modulus_def)
  have eq1: "modulus q r R = 1 \<longleftrightarrow> q = 0 \<and> r = R"
  proof -
    have "modulus q r R = 1 \<longleftrightarrow> 4 * R * r = ?d"
      using dpos by (auto simp add: modulus_def)
    also have "\<dots> \<longleftrightarrow> q\<^sup>2 + (r - R)\<^sup>2 = 0"
      using diff by linarith
    also have "\<dots> \<longleftrightarrow> q = 0 \<and> r = R"
      by (simp add: sum_power2_eq_zero_iff)
    finally show ?thesis .
  qed
  have exact: "0 \<le> modulus q r R \<and> modulus q r R \<le> 1
       \<and> (modulus q r R = 1 \<longleftrightarrow> q = 0 \<and> r = R)
       \<and> (\<not> (q = 0 \<and> r = R) \<longrightarrow> modulus q r R < 1)"
    using nonneg le1 eq1 by (auto simp add: less_le)
  show ?thesis
    using exact modulus_f64_tiny_q round_f64_next_one modulus_f64_above_one by blast
qed

theorem modulus_exact_range_witness:
  "0 \<le> modulus (1 / 2 ^ 30) 1 1 \<and> modulus (1 / 2 ^ 30) 1 1 < 1
   \<and> modulus 0 1 1 = 1
   \<and> modulus 0 1 (1 + 1 / 2 ^ 52) < 1
   \<and> modulus_f64 (1 / 2 ^ 30) 1 1 = 1
   \<and> modulus_f64 0 1 (1 + 1 / 2 ^ 52) = 1 + 1 / 2 ^ 52"
  using modulus_exact_range [of 1 1 "1 / 2 ^ 30"] modulus_exact_range [of 1 1 0]
    modulus_exact_range [of "1 + 1 / 2 ^ 52" 1 0]
  by simp

section \<open>Effects on the arguments\<close>

text \<open>
  On arguments that pass the checks the store version appends the arrays \<open>Y\<close>,
  \<open>X\<close>, \<open>Z\<close>, \<open>r\<close>, \<open>Z2\<close> and the outputs to the store; the in-place
  multiplications fall on the appended outputs.
\<close>

lemma displacement_store_value:
  assumes "coordinates < length s" "disk < length s"
    and "check_arguments (rows_of (s ! coordinates)) (items_of (s ! disk)) pressure poisson young = None"
  shows "Geertsma_disk_displacement_store ext coordinates disk pressure poisson young s =
    (let c = rows_of (s ! coordinates); d = items_of (s ! disk);
         p = scalar_of pressure; nu = scalar_of poisson; E = scalar_of young;
         g = derive_geometry c d;
         k = Cm ext nu E * (d ! 3) * (d ! 4) / 2
     in (Inr (length s + 5, length s + 6),
         s @ [Ndarray1 (gY g), Ndarray1 (gX g), Ndarray1 (gZ g), Ndarray1 (gr g), Ndarray1 (gZ2 g),
              Ndarray1 (vscale (displacement_ur ext c (d ! 3) p nu g) k),
              Ndarray1 (vscale (displacement_uz ext c (d ! 3) p nu g) k)]))"
  using assms
  by (simp add: Geertsma_disk_displacement_store_def alloc_def imul_def Let_def nth_append
      derive_geometry_def list_update_append)

lemma stress_store_value:
  assumes "coordinates < length s" "disk < length s"
    and "check_arguments (rows_of (s ! coordinates)) (items_of (s ! disk)) pressure poisson young = None"
  shows "Geertsma_disk_stress_store ext coordinates disk pressure poisson young s =
    (let c = rows_of (s ! coordinates); d = items_of (s ! disk);
         p = scalar_of pressure; nu = scalar_of poisson; E = scalar_of young;
         g = derive_geometry c d
     in case G nu E of
          Inl e \<Rightarrow>
            (Inl e,
             s @ [Ndarray1 (gY g), Ndarray1 (gX g), Ndarray1 (gZ g), Ndarray1 (gr g),
                  Ndarray1 (gZ2 g),
                  Ndarray1 (stress_sr ext c (d ! 3) p nu g),
                  Ndarray1 (stress_st ext c (d ! 3) p nu g),
                  Ndarray1 (stress_sz ext c (d ! 3) p nu g)])
        | Inr shear \<Rightarrow>
            (Inr (length s + 5, length s + 6, length s + 7),
             s @ [Ndarray1 (gY g), Ndarray1 (gX g), Ndarray1 (gZ g), Ndarray1 (gr g),
                  Ndarray1 (gZ2 g),
                  Ndarray1 (vscale (stress_sr ext c (d ! 3) p nu g)
                              (shear * Cm ext nu E * (d ! 3) * (d ! 4))),
                  Ndarray1 (vscale (stress_st ext c (d ! 3) p nu g)
                              (shear * Cm ext nu E * (d ! 3) * (d ! 4))),
                  Ndarray1 (vscale (stress_sz ext c (d ! 3) p nu g)
                              (shear * Cm ext nu E * (d ! 3) * (d ! 4)))]))"
  using assms
  by (simp add: Geertsma_disk_stress_store_def alloc_def imul_def Let_def nth_append
      derive_geometry_def list_update_append split: sum.splits)

text \<open>The store version returns references to the arrays the value version returns.\<close>

lemma displacement_store_refines:
  assumes "coordinates < length s" "disk < length s"
    and "Geertsma_disk_displacement ext (rows_of (s ! coordinates)) (items_of (s ! disk))
           pressure poisson young = Inr (ur, uz)"
  shows "\<exists>a b s'. Geertsma_disk_displacement_store ext coordinates disk pressure poisson young s
            = (Inr (a, b), s')
          \<and> array_of (s' ! a) = ur \<and> array_of (s' ! b) = uz"
proof -
  have chk: "check_arguments (rows_of (s ! coordinates)) (items_of (s ! disk)) pressure poisson young = None"
    using assms(3) by (auto simp add: Geertsma_disk_displacement_def split: option.splits)
  show ?thesis
    using assms(3)
    by (simp add: displacement_store_value [OF assms(1,2) chk] Geertsma_disk_displacement_def chk
        Let_def nth_append)
qed

lemma stress_store_refines:
  assumes "coordinates < length s" "disk < length s"
    and "Geertsma_disk_stress ext (rows_of (s ! coordinates)) (items_of (s ! disk))
           pressure poisson young = Inr (sr, st, sz)"
  shows "\<exists>a b c s'. Geertsma_disk_stress_store ext coordinates disk pressure poisson young s
            = (Inr (a, b, c), s')
          \<and> array_of (s' ! a) = sr \<and> array_of (s' ! b) = st \<and> array_of (s' ! c) = sz"
proof -
  have chk: "check_arguments (rows_of (s ! coordinates)) (items_of (s ! disk)) pressure poisson young = None"
    using assms(3) by (auto simp add: Geertsma_disk_stress_def split: option.splits)
  show ?thesis
    using assms(3)
    by (auto simp add: stress_store_value [OF assms(1,2) chk] Geertsma_disk_stress_def chk
        Let_def nth_append split: sum.splits)
qed

lemma displacement_store_prefix:
  assumes "coordinates < length s" "disk < length s"
  shows "take (length s) (snd (Geertsma_disk_displacement_store ext coordinates disk pressure poisson young s)) = s"
proof (cases "check_arguments (rows_of (s ! coordinates)) (items_of (s ! disk)) pressure poisson young")
  case None
  show ?thesis
    by (simp add: displacement_store_value [OF assms None] Let_def)
next
  case (Some e)
  then show ?thesis
    by (simp add: Geertsma_disk_displacement_store_def)
qed

lemma stress_store_prefix:
  assumes "coordinates < length s" "disk < length s"
  shows "take (length s) (snd (Geertsma_disk_stress_store ext coordinates disk pressure poisson young s)) = s"
proof (cases "check_arguments (rows_of (s ! coordinates)) (items_of (s ! disk)) pressure poisson young")
  case None
  show ?thesis
    by (simp add: stress_store_value [OF assms None] Let_def split: sum.splits)
next
  case (Some e)
  then show ?thesis
    by (simp add: Geertsma_disk_stress_store_def)
qed

text \<open>
  C10. Neither public function changes its arguments: after a call of the
  displacement or of the stress function, failed or not, the objects behind
  \<open>coordinates\<close> and \<open>disk\<close> are what they were before, as is every other object
  that existed before the call.
\<close>

theorem inputs_not_mutated:
  assumes "coordinates < length s" and "disk < length s"
    and "s1 = snd (Geertsma_disk_displacement_store ext coordinates disk pressure poisson young s)"
    and "s2 = snd (Geertsma_disk_stress_store ext coordinates disk pressure poisson young s)"
  shows "s1 ! coordinates = s ! coordinates \<and> s1 ! disk = s ! disk \<and> take (length s) s1 = s
       \<and> s2 ! coordinates = s ! coordinates \<and> s2 ! disk = s ! disk \<and> take (length s) s2 = s"
proof -
  have p1: "take (length s) s1 = s"
    unfolding assms(3) by (rule displacement_store_prefix [OF assms(1,2)])
  have p2: "take (length s) s2 = s"
    unfolding assms(4) by (rule stress_store_prefix [OF assms(1,2)])
  have n1: "s1 ! a = s ! a" if "a < length s" for a
    using that p1 by (metis nth_take)
  have n2: "s2 ! a = s ! a" if "a < length s" for a
    using that p2 by (metis nth_take)
  show ?thesis
    using p1 p2 n1 [OF assms(1)] n1 [OF assms(2)] n2 [OF assms(1)] n2 [OF assms(2)] by simp
qed

theorem inputs_not_mutated_witness:
  "snd (Geertsma_disk_displacement_store sample_externals 0 1
          (Scalar (- 10)) (Scalar (1 / 4)) (Scalar 10000)
          [Ndarray2 [[0], [0], [0]], PyList [0, 0, 1000, 500, 50]]) ! 0 = Ndarray2 [[0], [0], [0]]
   \<and> snd (Geertsma_disk_displacement_store sample_externals 0 1
          (Scalar (- 10)) (Scalar (1 / 4)) (Scalar 10000)
          [Ndarray2 [[0], [0], [0]], PyList [0, 0, 1000, 500, 50]]) ! 1 = PyList [0, 0, 1000, 500, 50]
   \<and> snd (Geertsma_disk_stress_store sample_externals 0 1
          (Scalar (- 10)) (Scalar (1 / 4)) (Scalar 10000)
          [Ndarray2 [[0], [0], [0]], PyList [0, 0, 1000, 500, 50]]) ! 0 = Ndarray2 [[0], [0], [0]]
   \<and> snd (Geertsma_disk_stress_store sample_externals 0 1
          (Scalar (- 10)) (Scalar (1 / 4)) (Scalar 10000)
          [Ndarray2 [[0], [0], [0]], PyList [0, 0, 1000, 500, 50]]) ! 1 = PyList [0, 0, 1000, 500, 50]"
  using inputs_not_mutated [of 0 "[Ndarray2 [[0], [0], [0]], PyList [0, 0, 1000, 500, 50]]" 1
      _ sample_externals "Scalar (- 10)" "Scalar (1 / 4)" "Scalar 10000" _, OF _ _ refl refl]
  by simp

end
